theory Spec2Isabelle
  imports Main
begin

section \<open>Errors\<close>

text \<open>
  The TypeScript code signals failure by throwing. An exception thrown by the code of
  the repository itself is \<open>Error msg\<close> with the message of the \<^verbatim>\<open>throw\<close>; an exception
  raised inside a call of an external library (bitcoinjs-lib, bip32, bn.js, the wallet
  tools, the processor) is \<open>LibError\<close>; the \<^verbatim>\<open>TypeError\<close> of the JavaScript run time
  (destructuring \<^verbatim>\<open>undefined\<close>) is \<open>TypeError\<close>.
\<close>

datatype error = Error string | LibError | TypeError

section \<open>keymanager.ts: the enumerations\<close>

datatype NetworkEnum = Mainnet | Testnet

datatype BIP43PurposeTypeEnum = Legacy | Segwit | WrappedSegwit

datatype AddressTypeEnum =
  p2pkh | p2sh | p2wpkhp2sh | p2wpkh | p2wsh | p2wshp2sh | cashaddrP2PKH | cashaddrP2SH

datatype TransactionInputTypeEnum = LegacyInput | SegwitInput

section \<open>keymanager.ts: createTx\<close>

text \<open>
  \<^verbatim>\<open>TxInput\<close>, \<^verbatim>\<open>TxOutput\<close> and \<^verbatim>\<open>CreateTxArgs\<close>. An optional field (\<^verbatim>\<open>prevTx?: string\<close>)
  is an \<open>option\<close>; \<open>None\<close> is \<^verbatim>\<open>undefined\<close>. Hex strings stay hex strings
  (\<^verbatim>\<open>Buffer.from(s, 'hex')\<close> is not modelled as a separate step).
\<close>

record TxInput =
  input_type :: TransactionInputTypeEnum
  prevTxid :: string
  index :: nat
  prevTx :: "string option"
  prevScriptPubkey :: "string option"
  redeemScript :: "string option"
  input_value :: "int option"

record TxOutput =
  scriptPubkey :: string
  amount :: int

record CreateTxArgs =
  network :: NetworkEnum
  inputs :: "TxInput list"
  outputs :: "TxOutput list"
  rbf :: bool

text \<open>
  The \<^verbatim>\<open>bitcoin.Psbt\<close> object that \<^verbatim>\<open>createTx\<close> fills: the inputs and outputs added so
  far, in the order of the \<^verbatim>\<open>addInput\<close> and \<^verbatim>\<open>addOutput\<close> calls. The argument object of
  \<^verbatim>\<open>addInput\<close> is \<open>PsbtInput\<close>, that of \<^verbatim>\<open>addOutput\<close> is \<open>PsbtOutput\<close>.
\<close>

record WitnessUtxo =
  utxo_script :: string
  utxo_value :: int

record PsbtInput =
  hash :: string
  psbt_index :: nat
  sequence :: nat
  nonWitnessUtxo :: "string option"
  witnessUtxo :: "WitnessUtxo option"
  psbt_redeemScript :: "string option"

record PsbtOutput =
  script :: string
  output_value :: int

record Psbt =
  psbt_inputs :: "PsbtInput list"
  psbt_outputs :: "PsbtOutput list"

text \<open>
  bitcoinjs-lib is not part of the repository. Its \<^verbatim>\<open>addInput\<close> and \<^verbatim>\<open>addOutput\<close> check
  their argument against the Psbt built so far (a duplicate input, a hash of the wrong
  length) and throw when they reject it: the two checks are parameters.
\<close>

record PsbtLib =
  acceptsInput :: "Psbt \<Rightarrow> PsbtInput \<Rightarrow> bool"
  acceptsOutput :: "Psbt \<Rightarrow> PsbtOutput \<Rightarrow> bool"

definition addInput :: "PsbtLib \<Rightarrow> Psbt \<Rightarrow> PsbtInput \<Rightarrow> error + Psbt" where
  "addInput lib psbt i =
     (if acceptsInput lib psbt i then Inr (psbt\<lparr>psbt_inputs := psbt_inputs psbt @ [i]\<rparr>)
      else Inl LibError)"

definition addOutput :: "PsbtLib \<Rightarrow> Psbt \<Rightarrow> PsbtOutput \<Rightarrow> error + Psbt" where
  "addOutput lib psbt out =
     (if acceptsOutput lib psbt out then Inr (psbt\<lparr>psbt_outputs := psbt_outputs psbt @ [out]\<rparr>)
      else Inl LibError)"

text \<open>
  \<^verbatim>\<open>let sequence = 0xffffffff; if (createTxArgs.rbf) { sequence -= 2 }\<close>. A JavaScript
  number holds both values exactly.
\<close>

definition createTx_sequence :: "bool \<Rightarrow> nat" where
  "createTx_sequence r = (if r then 0xffffffff - 2 else 0xffffffff)"

text \<open>
  The body of the first loop up to the \<^verbatim>\<open>addInput\<close> call: the checks on one input and
  the argument object built for \<^verbatim>\<open>addInput\<close>. Every input that is not legacy takes the
  \<^verbatim>\<open>else\<close> branch.
\<close>

definition createTx_input :: "nat \<Rightarrow> TxInput \<Rightarrow> error + PsbtInput" where
  "createTx_input sq i =
     (if input_type i = LegacyInput then
        (case prevTx i of
           None \<Rightarrow> Inl (Error ''legacy inputs require the full previous transaction to be passed'')
         | Some ptx \<Rightarrow>
             Inr \<lparr>hash = prevTxid i, psbt_index = index i, sequence = sq,
                  nonWitnessUtxo = Some ptx, witnessUtxo = None, psbt_redeemScript = None\<rparr>)
      else
        (case (prevScriptPubkey i, input_value i) of
           (Some spk, Some v) \<Rightarrow>
             (case redeemScript i of
                None \<Rightarrow>
                  Inr \<lparr>hash = prevTxid i, psbt_index = index i, sequence = sq,
                       nonWitnessUtxo = None,
                       witnessUtxo = Some \<lparr>utxo_script = spk, utxo_value = v\<rparr>,
                       psbt_redeemScript = None\<rparr>
              | Some rs \<Rightarrow>
                  Inr \<lparr>hash = prevTxid i, psbt_index = index i, sequence = sq,
                       nonWitnessUtxo = None,
                       witnessUtxo = Some \<lparr>utxo_script = spk, utxo_value = v\<rparr>,
                       psbt_redeemScript = Some rs\<rparr>)
         | _ \<Rightarrow> Inl (Error ''segwit inputs require a script pubkey and value to be passed'')))"

text \<open>The first loop: the inputs from left to right, stopping at the first throw.\<close>

fun createTx_inputs :: "PsbtLib \<Rightarrow> nat \<Rightarrow> Psbt \<Rightarrow> TxInput list \<Rightarrow> error + Psbt" where
  "createTx_inputs lib sq psbt [] = Inr psbt"
| "createTx_inputs lib sq psbt (i # rest) =
     (case createTx_input sq i of
        Inl e \<Rightarrow> Inl e
      | Inr pin \<Rightarrow>
          (case addInput lib psbt pin of
             Inl e \<Rightarrow> Inl e
           | Inr psbt' \<Rightarrow> createTx_inputs lib sq psbt' rest))"

definition createTx_output :: "TxOutput \<Rightarrow> PsbtOutput" where
  "createTx_output out = \<lparr>script = scriptPubkey out, output_value = amount out\<rparr>"

text \<open>The second loop: the outputs from left to right.\<close>

fun createTx_outputs :: "PsbtLib \<Rightarrow> Psbt \<Rightarrow> TxOutput list \<Rightarrow> error + Psbt" where
  "createTx_outputs lib psbt [] = Inr psbt"
| "createTx_outputs lib psbt (out # rest) =
     (case addOutput lib psbt (createTx_output out) of
        Inl e \<Rightarrow> Inl e
      | Inr psbt' \<Rightarrow> createTx_outputs lib psbt' rest)"

text \<open>
  \<^verbatim>\<open>createTx\<close> returns \<^verbatim>\<open>psbt.toBase64()\<close>, the serialisation of the Psbt; the model
  returns the Psbt that is serialised.
\<close>

definition createTx :: "PsbtLib \<Rightarrow> CreateTxArgs \<Rightarrow> error + Psbt" where
  "createTx lib args =
     (case createTx_inputs lib (createTx_sequence (rbf args))
             \<lparr>psbt_inputs = [], psbt_outputs = []\<rparr> (inputs args) of
        Inl e \<Rightarrow> Inl e
      | Inr psbt \<Rightarrow> createTx_outputs lib psbt (outputs args))"

text \<open>
  The conditions of the two \<^verbatim>\<open>throw\<close> statements of \<^verbatim>\<open>createTx\<close>, as predicates on an
  input.
\<close>

definition legacy_lacks_prevTx :: "TxInput \<Rightarrow> bool" where
  "legacy_lacks_prevTx i = (input_type i = LegacyInput \<and> prevTx i = None)"

definition segwit_lacks_field :: "TxInput \<Rightarrow> bool" where
  "segwit_lacks_field i =
     (input_type i \<noteq> LegacyInput \<and> (prevScriptPubkey i = None \<or> input_value i = None))"

text \<open>
  A Psbt library that accepts every input and output, and four inputs, for the concrete
  evaluations below: a legacy input with its previous transaction; a witness input
  (native P2WPKH script, no redeem script); an input that spends a P2SH output
  (\<^verbatim>\<open>a914\<close>, twenty bytes, \<^verbatim>\<open>87\<close>) and carries no redeem script; and a witness input
  without a value.
\<close>

definition legacy_input :: TxInput where
  "legacy_input =
     \<lparr>input_type = LegacyInput, prevTxid = ''3c'', index = 2, prevTx = Some ''0100000000'',
      prevScriptPubkey = None, redeemScript = None, input_value = None\<rparr>"

definition incomplete_input :: TxInput where
  "incomplete_input =
     \<lparr>input_type = SegwitInput, prevTxid = ''9e'', index = 0, prevTx = None,
      prevScriptPubkey = Some ''00140101010101010101010101010101010101010101'',
      redeemScript = None, input_value = None\<rparr>"

definition accepting :: PsbtLib where
  "accepting = \<lparr>acceptsInput = (\<lambda>_ _. True), acceptsOutput = (\<lambda>_ _. True)\<rparr>"

definition witness_input :: TxInput where
  "witness_input =
     \<lparr>input_type = SegwitInput, prevTxid = ''7d'', index = 0, prevTx = None,
      prevScriptPubkey = Some ''00140101010101010101010101010101010101010101'',
      redeemScript = None, input_value = Some 5000\<rparr>"

definition wrapped_input :: TxInput where
  "wrapped_input =
     \<lparr>input_type = SegwitInput, prevTxid = ''7d'', index = 1, prevTx = None,
      prevScriptPubkey = Some ''a914010101010101010101010101010101010101010187'',
      redeemScript = None, input_value = Some 5000\<rparr>"

text \<open>
  A segwit input as a caller passes it for a P2SH-wrapped witness output, but for the
  redeem script: the id of the previous transaction, the index of the output, the
  P2SH locking script of the output and its value; and a legacy input without its
  previous transaction.
\<close>

definition p2sh_spending_input :: TxInput where
  "p2sh_spending_input =
     \<lparr>input_type = SegwitInput,
      prevTxid = ''7d7d7d7d7d7d7d7d7d7d7d7d7d7d7d7d7d7d7d7d7d7d7d7d7d7d7d7d7d7d7d7d'',
      index = 1, prevTx = None,
      prevScriptPubkey = Some ''a914010101010101010101010101010101010101010187'',
      redeemScript = None, input_value = Some 5000\<rparr>"

definition legacy_input_without_prevTx :: TxInput where
  "legacy_input_without_prevTx =
     \<lparr>input_type = LegacyInput,
      prevTxid = ''3c3c3c3c3c3c3c3c3c3c3c3c3c3c3c3c3c3c3c3c3c3c3c3c3c3c3c3c3c3c3c3c'',
      index = 0, prevTx = None, prevScriptPubkey = None, redeemScript = None,
      input_value = None\<rparr>"

section \<open>keymanager.ts: the network of a coin\<close>

text \<open>
  \<^verbatim>\<open>CoinPrefixes\<close> and \<^verbatim>\<open>Coin\<close> are declared in \<^verbatim>\<open>./coin\<close>, which is not among the
  sources: the records hold the fields that keymanager.ts reads. A field the code tests
  against \<^verbatim>\<open>undefined\<close> is an \<open>option\<close>.
\<close>

record CoinPrefixes =
  messagePrefix :: string
  wif :: nat
  legacyXPub :: nat
  legacyXPriv :: nat
  wrappedSegwitXPub :: "nat option"
  wrappedSegwitXPriv :: "nat option"
  segwitXPub :: "nat option"
  segwitXPriv :: "nat option"
  bech32 :: "string option"
  pubkeyHash :: nat
  scriptHash :: nat

record Coin =
  mainnetConstants :: CoinPrefixes
  testnetConstants :: CoinPrefixes
  segwit :: bool

text \<open>\<^verbatim>\<open>Bip32\<close> and \<^verbatim>\<open>BitcoinJSNetwork\<close>, as redeclared in keymanager.ts.\<close>

record Bip32 =
  bip32_public :: nat
  bip32_private :: nat

record BitcoinJSNetwork =
  net_wif :: nat
  net_bip32 :: Bip32
  net_messagePrefix :: string
  net_bech32 :: string
  net_pubKeyHash :: nat
  net_scriptHash :: nat

text \<open>
  \<^verbatim>\<open>bip32NetworkFromCoinPrefix\<close>. The \<^verbatim>\<open>default\<close> branch of the \<^verbatim>\<open>switch\<close> is unreachable
  for the three values of the enumeration. The third parameter is not used.
\<close>

definition bip32NetworkFromCoinPrefix ::
  "BIP43PurposeTypeEnum \<Rightarrow> CoinPrefixes \<Rightarrow> bool \<Rightarrow> error + BitcoinJSNetwork" where
  "bip32NetworkFromCoinPrefix sigType coinPrefixes sw =
     (case
        (case sigType of
           Segwit \<Rightarrow>
             (case (segwitXPub coinPrefixes, segwitXPriv coinPrefixes) of
                (Some xpub, Some xpriv) \<Rightarrow> Inr \<lparr>bip32_public = xpub, bip32_private = xpriv\<rparr>
              | _ \<Rightarrow> Inl (Error ''segwit xpub prefix is undefined''))
         | WrappedSegwit \<Rightarrow>
             (case (wrappedSegwitXPub coinPrefixes, wrappedSegwitXPriv coinPrefixes) of
                (Some xpub, Some xpriv) \<Rightarrow> Inr \<lparr>bip32_public = xpub, bip32_private = xpriv\<rparr>
              | _ \<Rightarrow> Inl (Error ''wrapped segwit xpub prefix is undefined''))
         | Legacy \<Rightarrow>
             Inr \<lparr>bip32_public = legacyXPub coinPrefixes,
                  bip32_private = legacyXPriv coinPrefixes\<rparr>)
      of
        Inl e \<Rightarrow> Inl e
      | Inr xKeyPrefixes \<Rightarrow>
          Inr \<lparr>net_wif = wif coinPrefixes,
               net_bip32 = xKeyPrefixes,
               net_messagePrefix = messagePrefix coinPrefixes,
               net_bech32 = (case bech32 coinPrefixes of None \<Rightarrow> ''bc'' | Some b \<Rightarrow> b),
               net_pubKeyHash = pubkeyHash coinPrefixes,
               net_scriptHash = scriptHash coinPrefixes\<rparr>)"

text \<open>
  \<^verbatim>\<open>bip32NetworkFromCoin\<close>. \<^verbatim>\<open>getCoinFromString\<close> comes from \<^verbatim>\<open>./coinmapper\<close>, which is not
  among the sources: the coin table is the parameter \<open>getCoinFromString\<close>, which may
  throw. The default of \<^verbatim>\<open>sigType\<close> is written out by the callers.
\<close>

type_synonym CoinTable = "string \<Rightarrow> error + Coin"

definition bip32NetworkFromCoin ::
  "CoinTable \<Rightarrow> NetworkEnum \<Rightarrow> string \<Rightarrow> BIP43PurposeTypeEnum \<Rightarrow> error + BitcoinJSNetwork" where
  "bip32NetworkFromCoin getCoinFromString networkType coinString sigType =
     (case getCoinFromString coinString of
        Inl e \<Rightarrow> Inl e
      | Inr coin \<Rightarrow>
          (if networkType = Testnet
           then bip32NetworkFromCoinPrefix sigType (testnetConstants coin) (segwit coin)
           else bip32NetworkFromCoinPrefix sigType (mainnetConstants coin) (segwit coin)))"

text \<open>
  The reading of the specification that \<open>bip32NetworkFromCoinPrefix\<close> is compared with:
  the pair of version bytes registered for a purpose, \<open>None\<close> when the prefixes lack one
  of the two; and the error thrown for a purpose without a pair. The legacy pair is never
  missing: the entry for it is the error of the \<^verbatim>\<open>default\<close> branch, which is not reached.
\<close>

definition spec_registered_pair :: "BIP43PurposeTypeEnum \<Rightarrow> CoinPrefixes \<Rightarrow> Bip32 option" where
  "spec_registered_pair purpose cp =
     (case purpose of
        Legacy \<Rightarrow> Some \<lparr>bip32_public = legacyXPub cp, bip32_private = legacyXPriv cp\<rparr>
      | Segwit \<Rightarrow>
          (case segwitXPub cp of
             None \<Rightarrow> None
           | Some pub \<Rightarrow>
               (case segwitXPriv cp of
                  None \<Rightarrow> None
                | Some priv \<Rightarrow> Some \<lparr>bip32_public = pub, bip32_private = priv\<rparr>))
      | WrappedSegwit \<Rightarrow>
          (case wrappedSegwitXPub cp of
             None \<Rightarrow> None
           | Some pub \<Rightarrow>
               (case wrappedSegwitXPriv cp of
                  None \<Rightarrow> None
                | Some priv \<Rightarrow> Some \<lparr>bip32_public = pub, bip32_private = priv\<rparr>)))"

definition unsupported_purpose :: "BIP43PurposeTypeEnum \<Rightarrow> error" where
  "unsupported_purpose purpose =
     (case purpose of
        Segwit \<Rightarrow> Error ''segwit xpub prefix is undefined''
      | WrappedSegwit \<Rightarrow> Error ''wrapped segwit xpub prefix is undefined''
      | Legacy \<Rightarrow> Error ''invalid bip43 purpose type'')"

definition prefixes_of :: "Coin \<Rightarrow> NetworkEnum \<Rightarrow> CoinPrefixes" where
  "prefixes_of coin n = (if n = Testnet then testnetConstants coin else mainnetConstants coin)"

section \<open>keymanager.ts: extended keys\<close>

text \<open>
  The bip39 and bip32 libraries are not part of the repository. A node of the key tree
  is a value of the type \<open>'n\<close>, a key (a \<^verbatim>\<open>Buffer\<close>, returned as its hex text) a value of
  \<open>'k\<close>; the operations the code calls are the fields of \<open>Bip32Lib\<close>. \<open>setNetwork\<close> is
  the assignment \<^verbatim>\<open>root.network = network\<close>.
\<close>

record ('n, 'k) Bip32Lib =
  mnemonicToSeedSync :: "string \<Rightarrow> string"
  fromSeed :: "string \<Rightarrow> error + 'n"
  setNetwork :: "'n \<Rightarrow> BitcoinJSNetwork \<Rightarrow> 'n"
  derivePath :: "'n \<Rightarrow> string \<Rightarrow> error + 'n"
  fromBase58 :: "string \<Rightarrow> BitcoinJSNetwork \<Rightarrow> error + 'n"
  neutered :: "'n \<Rightarrow> 'n"
  toBase58 :: "'n \<Rightarrow> string"
  derive :: "'n \<Rightarrow> nat \<Rightarrow> error + 'n"
  publicKey :: "'n \<Rightarrow> 'k"
  privateKey :: "'n \<Rightarrow> 'k option"

record MnemonicToXPrivArgs =
  mnemonic :: string
  path :: string
  mx_network :: NetworkEnum
  mx_type :: BIP43PurposeTypeEnum
  mx_coin :: string

record XPrivToXPubArgs =
  xx_xpriv :: string
  xx_network :: NetworkEnum
  xx_type :: BIP43PurposeTypeEnum
  xx_coin :: string

record XPrivToPrivateKeyArgs =
  xpriv :: string
  xp_network :: NetworkEnum
  xp_type :: BIP43PurposeTypeEnum
  xp_bip44ChangeIndex :: nat
  xp_bip44AddressIndex :: nat
  xp_coin :: string

record XPubToPubkeyArgs =
  xpub :: string
  pk_network :: NetworkEnum
  pk_type :: BIP43PurposeTypeEnum
  bip44ChangeIndex :: nat
  bip44AddressIndex :: nat
  pk_coin :: string

definition mnemonicToXPriv ::
  "CoinTable \<Rightarrow> ('n, 'k) Bip32Lib \<Rightarrow> MnemonicToXPrivArgs \<Rightarrow> error + string" where
  "mnemonicToXPriv getCoinFromString lib args =
     (let seed = mnemonicToSeedSync lib (mnemonic args) in
      case fromSeed lib seed of
        Inl e \<Rightarrow> Inl e
      | Inr root \<Rightarrow>
          (case bip32NetworkFromCoin getCoinFromString (mx_network args) (mx_coin args)
                  (mx_type args) of
             Inl e \<Rightarrow> Inl e
           | Inr net \<Rightarrow>
               (case derivePath lib (setNetwork lib root net) (path args) of
                  Inl e \<Rightarrow> Inl e
                | Inr child \<Rightarrow> Inr (toBase58 lib child))))"

definition xprivToXPub ::
  "CoinTable \<Rightarrow> ('n, 'k) Bip32Lib \<Rightarrow> XPrivToXPubArgs \<Rightarrow> error + string" where
  "xprivToXPub getCoinFromString lib args =
     (case bip32NetworkFromCoin getCoinFromString (xx_network args) (xx_coin args)
             (xx_type args) of
        Inl e \<Rightarrow> Inl e
      | Inr net \<Rightarrow>
          (case fromBase58 lib (xx_xpriv args) net of
             Inl e \<Rightarrow> Inl e
           | Inr node \<Rightarrow> Inr (toBase58 lib (neutered lib node))))"

definition xpubToPubkey ::
  "CoinTable \<Rightarrow> ('n, 'k) Bip32Lib \<Rightarrow> XPubToPubkeyArgs \<Rightarrow> error + 'k" where
  "xpubToPubkey getCoinFromString lib args =
     (case bip32NetworkFromCoin getCoinFromString (pk_network args) (pk_coin args)
             (pk_type args) of
        Inl e \<Rightarrow> Inl e
      | Inr net \<Rightarrow>
          (case fromBase58 lib (xpub args) net of
             Inl e \<Rightarrow> Inl e
           | Inr node \<Rightarrow>
               (case derive lib node (bip44ChangeIndex args) of
                  Inl e \<Rightarrow> Inl e
                | Inr change \<Rightarrow>
                    (case derive lib change (bip44AddressIndex args) of
                       Inl e \<Rightarrow> Inl e
                     | Inr leaf \<Rightarrow> Inr (publicKey lib leaf)))))"

definition xprivToPrivateKey ::
  "CoinTable \<Rightarrow> ('n, 'k) Bip32Lib \<Rightarrow> XPrivToPrivateKeyArgs \<Rightarrow> error + 'k" where
  "xprivToPrivateKey getCoinFromString lib args =
     (case bip32NetworkFromCoin getCoinFromString (xp_network args) (xp_coin args)
             (xp_type args) of
        Inl e \<Rightarrow> Inl e
      | Inr net \<Rightarrow>
          (case fromBase58 lib (xpriv args) net of
             Inl e \<Rightarrow> Inl e
           | Inr node \<Rightarrow>
               (case derive lib node 0 of
                  Inl e \<Rightarrow> Inl e
                | Inr change \<Rightarrow>
                    (case derive lib change 0 of
                       Inl e \<Rightarrow> Inl e
                     | Inr leaf \<Rightarrow>
                         (case privateKey lib leaf of
                            None \<Rightarrow> Inl (Error ''Failed to generate private key from xpriv'')
                          | Some k \<Rightarrow> Inr k)))))"

text \<open>
  For the concrete evaluations: a coin table with one coin that has all three pairs of
  version bytes on mainnet and only the legacy pair on testnet, and a bip32 library
  whose nodes record the indices they were derived with, so that the key of a node is
  its derivation path from the parsed extended key.
\<close>

definition btc_main :: CoinPrefixes where
  "btc_main =
     \<lparr>messagePrefix = ''Bitcoin Signed Message'', wif = 0x80,
      legacyXPub = 0x0488b21e, legacyXPriv = 0x0488ade4,
      wrappedSegwitXPub = Some 0x049d7cb2, wrappedSegwitXPriv = Some 0x049d7878,
      segwitXPub = Some 0x04b24746, segwitXPriv = Some 0x04b2430c,
      bech32 = Some ''bc'', pubkeyHash = 0x00, scriptHash = 0x05\<rparr>"

definition legacy_only :: CoinPrefixes where
  "legacy_only =
     \<lparr>messagePrefix = ''Bitcoin Signed Message'', wif = 0xef,
      legacyXPub = 0x043587cf, legacyXPriv = 0x04358394,
      wrappedSegwitXPub = None, wrappedSegwitXPriv = None,
      segwitXPub = None, segwitXPriv = None,
      bech32 = None, pubkeyHash = 0x6f, scriptHash = 0xc4\<rparr>"

definition one_coin :: CoinTable where
  "one_coin name =
     (if name = ''bitcoin''
      then Inr \<lparr>mainnetConstants = btc_main, testnetConstants = legacy_only, segwit = True\<rparr>
      else Inl (Error ''coin not found''))"

definition path_lib :: "(nat list, nat list) Bip32Lib" where
  "path_lib =
     \<lparr>mnemonicToSeedSync = (\<lambda>m. m),
      fromSeed = (\<lambda>_. Inr []),
      setNetwork = (\<lambda>n _. n),
      derivePath = (\<lambda>n _. Inr n),
      fromBase58 = (\<lambda>_ _. Inr []),
      neutered = (\<lambda>n. n),
      toBase58 = (\<lambda>_. []),
      derive = (\<lambda>n i. Inr (n @ [i])),
      publicKey = (\<lambda>n. n),
      privateKey = (\<lambda>n. Some n)\<rparr>"

text \<open>
  The same library, but that a node parsed with a network, or given one, starts from
  the pair of version bytes of that network: the key of a node then shows the pair the
  operation has selected.
\<close>

definition version_lib :: "(nat list, nat list) Bip32Lib" where
  "version_lib =
     path_lib
       \<lparr>setNetwork := (\<lambda>_ net. [bip32_public (net_bip32 net), bip32_private (net_bip32 net)]),
        fromBase58 :=
          (\<lambda>_ net. Inr [bip32_public (net_bip32 net), bip32_private (net_bip32 net)]),
        derivePath := (\<lambda>n _. Inr n),
        toBase58 := (\<lambda>n. map (\<lambda>v. if v = 0x04b24746 then CHR ''z'' else CHR ''x'') (take 1 n))\<rparr>"

section \<open>keymanager.ts: addresses and locking scripts\<close>

text \<open>
  \<^verbatim>\<open>bitcoin.payments.p2pkh\<close>, \<^verbatim>\<open>p2sh\<close>, \<^verbatim>\<open>p2wpkh\<close> and \<^verbatim>\<open>p2wsh\<close> of bitcoinjs-lib are the four
  values of \<open>PaymentCreator\<close>. The code calls a creator with one of \<^verbatim>\<open>{address, network}\<close>,
  \<^verbatim>\<open>{output, network}\<close> and \<^verbatim>\<open>{hash, network}\<close> (\<open>PaymentOpts\<close>) and reads \<^verbatim>\<open>.address\<close>,
  \<^verbatim>\<open>.output\<close> or \<^verbatim>\<open>.hash\<close> of the payment returned; the call throws when the creator
  rejects its argument. Buffers are written as their hex text.

  \<^verbatim>\<open>cashAddressToHash\<close> and \<^verbatim>\<open>hashToCashAddress\<close> come from
  \<^verbatim>\<open>./bitcoincashUtils/cashAddress\<close>, which is not among the sources. They are parameters
  as well.
\<close>

datatype PaymentCreator = P2PKH | P2SH | P2WPKH | P2WSH

datatype PaymentOpts = Address string | Output string | Hash string

record Payment =
  pay_address :: "string option"
  pay_output :: "string option"
  pay_hash :: "string option"

datatype cashaddrTypeEnum = pubkeyhash | scripthash

datatype cashaddrPrefixEnum = prefix_mainnet | prefix_testnet

record CashaddrInfo =
  info_type :: cashaddrTypeEnum
  info_scriptHash :: string

record AddressLib =
  payments :: "PaymentCreator \<Rightarrow> PaymentOpts \<Rightarrow> BitcoinJSNetwork \<Rightarrow> error + Payment"
  cashAddressToHash :: "string \<Rightarrow> error + CashaddrInfo"
  hashToCashAddress :: "string \<Rightarrow> cashaddrTypeEnum \<Rightarrow> cashaddrPrefixEnum \<Rightarrow> error + string"

record AddressToScriptPubkeyArgs =
  a2s_address :: string
  a2s_network :: NetworkEnum
  a2s_addressType :: "AddressTypeEnum option"
  a2s_coin :: string

record ScriptPubkeyToAddressArgs =
  s2a_scriptPubkey :: string
  s2a_addressType :: AddressTypeEnum
  s2a_network :: NetworkEnum
  s2a_coin :: string

record ScriptPubkeyToScriptHashArgs =
  s2h_scriptPubkey :: string
  s2h_addressType :: AddressTypeEnum
  s2h_network :: NetworkEnum
  s2h_coin :: string

record ScriptHashToScriptPubkeyArgs =
  h2s_scriptHash :: string
  h2s_addressType :: AddressTypeEnum
  h2s_network :: NetworkEnum
  h2s_coin :: string

text \<open>
  \<^verbatim>\<open>guessAddressTypeFromAddress\<close>: a chain of \<^verbatim>\<open>try { ...; return T } catch (e) {}\<close>
  blocks, each passed when its call throws.
\<close>

definition guessAddressTypeFromAddress ::
  "AddressLib \<Rightarrow> string \<Rightarrow> BitcoinJSNetwork \<Rightarrow> AddressTypeEnum option \<Rightarrow> error + AddressTypeEnum"
  where
  "guessAddressTypeFromAddress lib addr net addressType =
     (case addressType of
        Some t \<Rightarrow> Inr t
      | None \<Rightarrow>
          (case payments lib P2PKH (Address addr) net of
             Inr _ \<Rightarrow> Inr p2pkh
           | Inl _ \<Rightarrow>
          (case payments lib P2SH (Address addr) net of
             Inr _ \<Rightarrow> Inr p2sh
           | Inl _ \<Rightarrow>
          (case payments lib P2WSH (Address addr) net of
             Inr _ \<Rightarrow> Inr p2wsh
           | Inl _ \<Rightarrow>
          (case payments lib P2WPKH (Address addr) net of
             Inr _ \<Rightarrow> Inr p2wpkh
           | Inl _ \<Rightarrow>
          (case cashAddressToHash lib addr of
             Inr info \<Rightarrow>
               (if info_type info = pubkeyhash then Inr cashaddrP2PKH else Inr cashaddrP2SH)
           | Inl _ \<Rightarrow> Inl (Error (''Could not determine address type of '' @ addr))))))))"

definition scriptHashToScriptPubkey ::
  "CoinTable \<Rightarrow> AddressLib \<Rightarrow> ScriptHashToScriptPubkeyArgs \<Rightarrow> error + string" where
  "scriptHashToScriptPubkey getCoinFromString lib args =
     (case bip32NetworkFromCoin getCoinFromString (h2s_network args) (h2s_coin args) Legacy of
        Inl e \<Rightarrow> Inl e
      | Inr net \<Rightarrow>
          (case
             (case h2s_addressType args of
                p2pkh \<Rightarrow> Inr P2PKH
              | p2sh \<Rightarrow> Inr P2SH
              | p2wpkhp2sh \<Rightarrow> Inr P2SH
              | p2wpkh \<Rightarrow> Inr P2WPKH
              | p2wsh \<Rightarrow> Inr P2WSH
              | _ \<Rightarrow> Inl (Error ''invalid address type in address to script pubkey''))
           of
             Inl e \<Rightarrow> Inl e
           | Inr payment \<Rightarrow>
               (case payments lib payment (Hash (h2s_scriptHash args)) net of
                  Inl e \<Rightarrow> Inl e
                | Inr p \<Rightarrow>
                    (case pay_output p of
                       None \<Rightarrow> Inl (Error ''failed converting scriptPubkey to address'')
                     | Some spk \<Rightarrow> Inr spk))))"

definition scriptPubkeyToScriptHash ::
  "CoinTable \<Rightarrow> AddressLib \<Rightarrow> ScriptPubkeyToScriptHashArgs \<Rightarrow> error + string" where
  "scriptPubkeyToScriptHash getCoinFromString lib args =
     (case bip32NetworkFromCoin getCoinFromString (s2h_network args) (s2h_coin args) Legacy of
        Inl e \<Rightarrow> Inl e
      | Inr net \<Rightarrow>
          (case
             (case s2h_addressType args of
                p2pkh \<Rightarrow> Inr P2PKH
              | cashaddrP2PKH \<Rightarrow> Inr P2PKH
              | p2sh \<Rightarrow> Inr P2SH
              | cashaddrP2SH \<Rightarrow> Inr P2SH
              | p2wpkhp2sh \<Rightarrow> Inr P2SH
              | p2wpkh \<Rightarrow> Inr P2WPKH
              | p2wsh \<Rightarrow> Inr P2WSH
              | _ \<Rightarrow> Inl (Error ''invalid address type in address to script pubkey''))
           of
             Inl e \<Rightarrow> Inl e
           | Inr payment \<Rightarrow>
               (case payments lib payment (Output (s2h_scriptPubkey args)) net of
                  Inl e \<Rightarrow> Inl e
                | Inr p \<Rightarrow>
                    (case pay_hash p of
                       None \<Rightarrow> Inl (Error ''failed converting scriptPubkey to address'')
                     | Some h \<Rightarrow> Inr h))))"

text \<open>
  \<^verbatim>\<open>addressToScriptPubkey\<close>. In the two cashaddr cases the argument
  \<^verbatim>\<open>cashAddressToHash(address).scriptHash\<close> is evaluated before
  \<^verbatim>\<open>scriptHashToScriptPubkey\<close> is entered.
\<close>

definition addressToScriptPubkey ::
  "CoinTable \<Rightarrow> AddressLib \<Rightarrow> AddressToScriptPubkeyArgs \<Rightarrow> error + string" where
  "addressToScriptPubkey getCoinFromString lib args =
     (case bip32NetworkFromCoin getCoinFromString (a2s_network args) (a2s_coin args) Legacy of
        Inl e \<Rightarrow> Inl e
      | Inr net \<Rightarrow>
          (case guessAddressTypeFromAddress lib (a2s_address args) net (a2s_addressType args) of
             Inl e \<Rightarrow> Inl e
           | Inr addressType \<Rightarrow>
               (case
                  (case addressType of
                     p2pkh \<Rightarrow> Inr (Inl P2PKH)
                   | p2sh \<Rightarrow> Inr (Inl P2SH)
                   | p2wpkhp2sh \<Rightarrow> Inr (Inl P2SH)
                   | p2wpkh \<Rightarrow> Inr (Inl P2WPKH)
                   | p2wsh \<Rightarrow> Inr (Inl P2WSH)
                   | cashaddrP2PKH \<Rightarrow>
                       (case cashAddressToHash lib (a2s_address args) of
                          Inl e \<Rightarrow> Inl e
                        | Inr info \<Rightarrow>
                            Inr (Inr (scriptHashToScriptPubkey getCoinFromString lib
                              \<lparr>h2s_scriptHash = info_scriptHash info,
                               h2s_addressType = p2pkh,
                               h2s_network = a2s_network args,
                               h2s_coin = a2s_coin args\<rparr>)))
                   | cashaddrP2SH \<Rightarrow>
                       (case cashAddressToHash lib (a2s_address args) of
                          Inl e \<Rightarrow> Inl e
                        | Inr info \<Rightarrow>
                            Inr (Inr (scriptHashToScriptPubkey getCoinFromString lib
                              \<lparr>h2s_scriptHash = info_scriptHash info,
                               h2s_addressType = p2sh,
                               h2s_network = a2s_network args,
                               h2s_coin = a2s_coin args\<rparr>)))
                   | p2wshp2sh \<Rightarrow>
                       Inl (Error ''invalid address type in address to script pubkey''))
                of
                  Inl e \<Rightarrow> Inl e
                | Inr (Inr returned) \<Rightarrow> returned
                | Inr (Inl payment) \<Rightarrow>
                    (case payments lib payment (Address (a2s_address args)) net of
                       Inl e \<Rightarrow> Inl e
                     | Inr p \<Rightarrow>
                         (case pay_output p of
                            None \<Rightarrow> Inl (Error ''failed converting address to scriptPubkey'')
                          | Some spk \<Rightarrow> Inr spk)))))"

text \<open>
  \<^verbatim>\<open>scriptPubkeyToAddress\<close>. The cashaddr cases choose the prefix by the network and
  return from inside the \<^verbatim>\<open>switch\<close>.
\<close>

definition scriptPubkeyToAddress ::
  "CoinTable \<Rightarrow> AddressLib \<Rightarrow> ScriptPubkeyToAddressArgs \<Rightarrow> error + string" where
  "scriptPubkeyToAddress getCoinFromString lib args =
     (case bip32NetworkFromCoin getCoinFromString (s2a_network args) (s2a_coin args) Legacy of
        Inl e \<Rightarrow> Inl e
      | Inr net \<Rightarrow>
          (case
             (case s2a_addressType args of
                p2pkh \<Rightarrow> Inr (Inl P2PKH)
              | p2sh \<Rightarrow> Inr (Inl P2SH)
              | p2wpkhp2sh \<Rightarrow> Inr (Inl P2SH)
              | p2wpkh \<Rightarrow> Inr (Inl P2WPKH)
              | p2wsh \<Rightarrow> Inr (Inl P2WSH)
              | cashaddrP2PKH \<Rightarrow>
                  (case scriptPubkeyToScriptHash getCoinFromString lib
                          \<lparr>s2h_scriptPubkey = s2a_scriptPubkey args,
                           s2h_addressType = p2pkh,
                           s2h_network = s2a_network args,
                           s2h_coin = s2a_coin args\<rparr> of
                     Inl e \<Rightarrow> Inl e
                   | Inr h \<Rightarrow>
                       Inr (Inr (hashToCashAddress lib h pubkeyhash
                         (if s2a_network args = Testnet then prefix_testnet else prefix_mainnet))))
              | cashaddrP2SH \<Rightarrow>
                  (case scriptPubkeyToScriptHash getCoinFromString lib
                          \<lparr>s2h_scriptPubkey = s2a_scriptPubkey args,
                           s2h_addressType = p2sh,
                           s2h_network = s2a_network args,
                           s2h_coin = s2a_coin args\<rparr> of
                     Inl e \<Rightarrow> Inl e
                   | Inr h \<Rightarrow>
                       Inr (Inr (hashToCashAddress lib h scripthash
                         (if s2a_network args = Testnet then prefix_testnet else prefix_mainnet))))
              | p2wshp2sh \<Rightarrow>
                  Inl (Error ''invalid address type in address to script pubkey''))
           of
             Inl e \<Rightarrow> Inl e
           | Inr (Inr returned) \<Rightarrow> returned
           | Inr (Inl payment) \<Rightarrow>
               (case payments lib payment (Output (s2a_scriptPubkey args)) net of
                  Inl e \<Rightarrow> Inl e
                | Inr p \<Rightarrow>
                    (case pay_address p of
                       None \<Rightarrow> Inl (Error ''failed converting scriptPubkey to address'')
                     | Some a \<Rightarrow> Inr a))))"

text \<open>
  Modelled from the spec: the alternate-encoding prefix that the parameters of a coin
  register for a network (``optional alternate-encoding prefixes for mainnet/testnet''),
  \<open>None\<close> for a coin that registers none. keymanager.ts reads no such field. An address
  is in the alternate encoding of the coin when the coin registers a prefix and the
  address starts with that prefix and a colon, or has no colon (the prefix is assumed
  then).
\<close>

definition spec_alt_prefix_matches :: "string option \<Rightarrow> string \<Rightarrow> bool" where
  "spec_alt_prefix_matches alt a =
     (case alt of
        None \<Rightarrow> False
      | Some pre \<Rightarrow> take (length pre + 1) a = pre @ '':'' \<or> CHR '':'' \<notin> set a)"

text \<open>
  The decoders in the order in which the specification lists them, each giving the
  address type it recognises, and the first type in that order: the reading of the
  specification that \<open>guessAddressTypeFromAddress\<close> is compared with. The first four
  (\<open>spec_payment_decoders\<close>) decode against the network of the coin; the last decodes
  an address that \<open>alt_table_ok\<close> accepts, which for the specification is the test
  against the alternate-encoding prefix of the coin.
\<close>

definition spec_payment_decoders ::
  "AddressLib \<Rightarrow> BitcoinJSNetwork \<Rightarrow> (string \<Rightarrow> AddressTypeEnum option) list" where
  "spec_payment_decoders lib net =
     [(\<lambda>a. case payments lib P2PKH (Address a) net of Inr _ \<Rightarrow> Some p2pkh | Inl _ \<Rightarrow> None),
      (\<lambda>a. case payments lib P2SH (Address a) net of Inr _ \<Rightarrow> Some p2sh | Inl _ \<Rightarrow> None),
      (\<lambda>a. case payments lib P2WSH (Address a) net of Inr _ \<Rightarrow> Some p2wsh | Inl _ \<Rightarrow> None),
      (\<lambda>a. case payments lib P2WPKH (Address a) net of Inr _ \<Rightarrow> Some p2wpkh | Inl _ \<Rightarrow> None)]"

definition spec_decoders ::
  "AddressLib \<Rightarrow> BitcoinJSNetwork \<Rightarrow> (string \<Rightarrow> bool) \<Rightarrow>
   (string \<Rightarrow> AddressTypeEnum option) list" where
  "spec_decoders lib net alt_table_ok =
     spec_payment_decoders lib net @
     [(\<lambda>a. if alt_table_ok a
            then (case cashAddressToHash lib a of
                    Inr info \<Rightarrow>
                      (case info_type info of
                         pubkeyhash \<Rightarrow> Some cashaddrP2PKH
                       | scripthash \<Rightarrow> Some cashaddrP2SH)
                  | Inl _ \<Rightarrow> None)
            else None)]"

fun spec_first_decoding :: "(string \<Rightarrow> AddressTypeEnum option) list \<Rightarrow> string \<Rightarrow> AddressTypeEnum option"
  where
  "spec_first_decoding [] a = None"
| "spec_first_decoding (d # ds) a =
     (case d a of Some t \<Rightarrow> Some t | None \<Rightarrow> spec_first_decoding ds a)"

text \<open>
  For the concrete evaluations: an address library in which an address is a tag
  followed by the hex text of the hash (\<^verbatim>\<open>1\<close> for P2PKH, \<^verbatim>\<open>3\<close> for P2SH, \<^verbatim>\<open>q\<close> for P2WPKH,
  \<^verbatim>\<open>w\<close> for P2WSH; \<^verbatim>\<open>bitcoincash:q\<close>, \<^verbatim>\<open>bitcoincash:p\<close>, \<^verbatim>\<open>bchtest:q\<close> and \<^verbatim>\<open>bchtest:p\<close> for
  cashaddr), and a locking script is the script template around the hash.
\<close>

definition strip_prefix :: "string \<Rightarrow> string \<Rightarrow> string option" where
  "strip_prefix p s = (if take (length p) s = p then Some (drop (length p) s) else None)"

definition strip_suffix :: "string \<Rightarrow> string \<Rightarrow> string option" where
  "strip_suffix p s =
     (if length p \<le> length s \<and> drop (length s - length p) s = p
      then Some (take (length s - length p) s) else None)"

fun tag_of :: "PaymentCreator \<Rightarrow> string" where
  "tag_of P2PKH = ''1''"
| "tag_of P2SH = ''3''"
| "tag_of P2WPKH = ''q''"
| "tag_of P2WSH = ''w''"

fun script_head :: "PaymentCreator \<Rightarrow> string" where
  "script_head P2PKH = ''76a914''"
| "script_head P2SH = ''a914''"
| "script_head P2WPKH = ''0014''"
| "script_head P2WSH = ''0020''"

fun script_tail :: "PaymentCreator \<Rightarrow> string" where
  "script_tail P2PKH = ''88ac''"
| "script_tail P2SH = ''87''"
| "script_tail P2WPKH = []"
| "script_tail P2WSH = []"

definition tagged_payment :: "PaymentCreator \<Rightarrow> string \<Rightarrow> Payment" where
  "tagged_payment c h =
     \<lparr>pay_address = Some (tag_of c @ h),
      pay_output = Some (script_head c @ h @ script_tail c),
      pay_hash = Some h\<rparr>"

definition tagged_payments ::
  "PaymentCreator \<Rightarrow> PaymentOpts \<Rightarrow> BitcoinJSNetwork \<Rightarrow> error + Payment" where
  "tagged_payments c opts net =
     (case opts of
        Address a \<Rightarrow>
          (case strip_prefix (tag_of c) a of
             None \<Rightarrow> Inl LibError
           | Some h \<Rightarrow> Inr (tagged_payment c h))
      | Output s \<Rightarrow>
          (case strip_prefix (script_head c) s of
             None \<Rightarrow> Inl LibError
           | Some r \<Rightarrow>
               (case strip_suffix (script_tail c) r of
                  None \<Rightarrow> Inl LibError
                | Some h \<Rightarrow> Inr (tagged_payment c h)))
      | Hash h \<Rightarrow> Inr (tagged_payment c h))"

definition cash_prefix :: "cashaddrPrefixEnum \<Rightarrow> cashaddrTypeEnum \<Rightarrow> string" where
  "cash_prefix pre tag =
     (case pre of prefix_mainnet \<Rightarrow> ''bitcoincash:'' | prefix_testnet \<Rightarrow> ''bchtest:'') @
     (case tag of pubkeyhash \<Rightarrow> ''q'' | scripthash \<Rightarrow> ''p'')"

definition tagged_cashAddressToHash :: "string \<Rightarrow> error + CashaddrInfo" where
  "tagged_cashAddressToHash a =
     (case strip_prefix (cash_prefix prefix_mainnet pubkeyhash) a of
        Some h \<Rightarrow> Inr \<lparr>info_type = pubkeyhash, info_scriptHash = h\<rparr>
      | None \<Rightarrow>
     (case strip_prefix (cash_prefix prefix_mainnet scripthash) a of
        Some h \<Rightarrow> Inr \<lparr>info_type = scripthash, info_scriptHash = h\<rparr>
      | None \<Rightarrow>
     (case strip_prefix (cash_prefix prefix_testnet pubkeyhash) a of
        Some h \<Rightarrow> Inr \<lparr>info_type = pubkeyhash, info_scriptHash = h\<rparr>
      | None \<Rightarrow>
     (case strip_prefix (cash_prefix prefix_testnet scripthash) a of
        Some h \<Rightarrow> Inr \<lparr>info_type = scripthash, info_scriptHash = h\<rparr>
      | None \<Rightarrow> Inl LibError))))"

definition tagged_lib :: AddressLib where
  "tagged_lib =
     \<lparr>payments = tagged_payments,
      cashAddressToHash = tagged_cashAddressToHash,
      hashToCashAddress = (\<lambda>h tag pre. Inr (cash_prefix pre tag @ h))\<rparr>"

definition btc_network :: BitcoinJSNetwork where
  "btc_network =
     \<lparr>net_wif = 0x80,
      net_bip32 = \<lparr>bip32_public = 0x0488b21e, bip32_private = 0x0488ade4\<rparr>,
      net_messagePrefix = ''Bitcoin Signed Message'',
      net_bech32 = ''bc'',
      net_pubKeyHash = 0x00,
      net_scriptHash = 0x05\<rparr>"

definition tbtc_network :: BitcoinJSNetwork where
  "tbtc_network =
     \<lparr>net_wif = 0xef,
      net_bip32 = \<lparr>bip32_public = 0x043587cf, bip32_private = 0x04358394\<rparr>,
      net_messagePrefix = ''Bitcoin Signed Message'',
      net_bech32 = ''bc'',
      net_pubKeyHash = 0x6f,
      net_scriptHash = 0xc4\<rparr>"

text \<open>
  An address library in which the P2PKH and P2SH creators reject every address and the
  P2WSH and P2WPKH creators accept every address.
\<close>

definition witness_only_lib :: AddressLib where
  "witness_only_lib =
     \<lparr>payments =
        (\<lambda>c opts net. if c = P2PKH \<or> c = P2SH then Inl LibError else Inr (tagged_payment c [])),
      cashAddressToHash = tagged_cashAddressToHash,
      hashToCashAddress = (\<lambda>h tag pre. Inr (cash_prefix pre tag @ h))\<rparr>"

section \<open>keymanager.ts: signTx\<close>

text \<open>
  The Psbt that \<^verbatim>\<open>signTx\<close> works on is parsed from the text it is given and is changed
  only through bitcoinjs-lib: a value of the type \<open>'p\<close>, with the methods the code calls
  as the fields of \<open>SignLib\<close>, each of which may throw. \<open>'k\<close> is a key pair, \<open>'x\<close> the
  extracted transaction, \<open>'h\<close> its hex text. \<^verbatim>\<open>signInput\<close> and
  \<^verbatim>\<open>validateSignaturesOfInput\<close> are methods of the one Psbt object and may change it in
  place: each returns the Psbt as it leaves it, and the model passes that Psbt on.
  \<open>inputCount\<close> and \<open>hasSignature\<close> read a Psbt: the number of its inputs, and whether
  an input carries a signature.
\<close>

record ('p, 'k, 'x, 'h) SignLib =
  fromBase64 :: "string \<Rightarrow> error + 'p"
  fromPrivateKey :: "string \<Rightarrow> error + 'k"
  signInput :: "'p \<Rightarrow> nat \<Rightarrow> 'k \<Rightarrow> error + 'p"
  validateSignaturesOfInput :: "'p \<Rightarrow> nat \<Rightarrow> error + bool \<times> 'p"
  finalizeAllInputs :: "'p \<Rightarrow> error + 'p"
  extractTransaction :: "'p \<Rightarrow> error + 'x"
  toHex :: "'x \<Rightarrow> 'h"
  inputCount :: "'p \<Rightarrow> nat"
  hasSignature :: "'p \<Rightarrow> nat \<Rightarrow> bool"

record SignTxArgs =
  privateKeys :: "string list"
  signTx_tx :: string

text \<open>
  The loop of \<^verbatim>\<open>signTx\<close> from the index \<open>i\<close> on, over the keys that are left. The key
  pair is built before \<^verbatim>\<open>signInput\<close> is called; the boolean that
  \<^verbatim>\<open>validateSignaturesOfInput\<close> returns is dropped.
\<close>

fun signTx_loop ::
  "('p, 'k, 'x, 'h) SignLib \<Rightarrow> nat \<Rightarrow> string list \<Rightarrow> 'p \<Rightarrow> error + 'p" where
  "signTx_loop lib i [] psbt = Inr psbt"
| "signTx_loop lib i (key # rest) psbt =
     (case fromPrivateKey lib key of
        Inl e \<Rightarrow> Inl e
      | Inr pair \<Rightarrow>
          (case signInput lib psbt i pair of
             Inl e \<Rightarrow> Inl e
           | Inr psbt' \<Rightarrow>
               (case validateSignaturesOfInput lib psbt' i of
                  Inl e \<Rightarrow> Inl e
                | Inr (_, psbt'') \<Rightarrow> signTx_loop lib (Suc i) rest psbt'')))"

definition signTx :: "('p, 'k, 'x, 'h) SignLib \<Rightarrow> SignTxArgs \<Rightarrow> error + 'h" where
  "signTx lib args =
     (case fromBase64 lib (signTx_tx args) of
        Inl e \<Rightarrow> Inl e
      | Inr psbt \<Rightarrow>
          (case signTx_loop lib 0 (privateKeys args) psbt of
             Inl e \<Rightarrow> Inl e
           | Inr signed \<Rightarrow>
               (case finalizeAllInputs lib signed of
                  Inl e \<Rightarrow> Inl e
                | Inr final \<Rightarrow>
                    (case extractTransaction lib final of
                       Inl e \<Rightarrow> Inl e
                     | Inr t \<Rightarrow> Inr (toHex lib t)))))"

text \<open>
  A library that accepts every call and whose Psbt is the list of the calls made on it
  so far: what \<^verbatim>\<open>signTx\<close> returns with it is the sequence of its calls on the Psbt.
\<close>

datatype psbt_call =
  SignInput nat string | ValidateSignaturesOfInput nat | FinalizeAllInputs | ExtractTransaction

definition recording_lib :: "(psbt_call list, string, psbt_call list, psbt_call list) SignLib" where
  "recording_lib =
     \<lparr>fromBase64 = (\<lambda>_. Inr []),
      fromPrivateKey = (\<lambda>key. Inr key),
      signInput = (\<lambda>p i key. Inr (p @ [SignInput i key])),
      validateSignaturesOfInput = (\<lambda>p i. Inr (True, p @ [ValidateSignaturesOfInput i])),
      finalizeAllInputs = (\<lambda>p. Inr (p @ [FinalizeAllInputs])),
      extractTransaction = (\<lambda>p. Inr (p @ [ExtractTransaction])),
      toHex = (\<lambda>t. t),
      inputCount = (\<lambda>_. 0),
      hasSignature = (\<lambda>_ _. False)\<rparr>"

text \<open>
  A library whose Psbt is the number of signatures on each input. The text of a Psbt
  has one character for each input, \<^verbatim>\<open>1\<close> for an input that carries a signature already.
  \<^verbatim>\<open>signInput\<close> throws for an index without an input, \<^verbatim>\<open>validateSignaturesOfInput\<close>
  and \<^verbatim>\<open>finalizeAllInputs\<close> throw for an input without a signature.
\<close>

definition counting_lib :: "(nat list, string, nat list, string) SignLib" where
  "counting_lib =
     \<lparr>fromBase64 = (\<lambda>t. Inr (map (\<lambda>c. if c = CHR ''1'' then 1 else 0) t)),
      fromPrivateKey = (\<lambda>key. Inr key),
      signInput = (\<lambda>p i key. if i < length p then Inr (p[i := Suc (p ! i)]) else Inl LibError),
      validateSignaturesOfInput =
        (\<lambda>p i. if i < length p \<and> 0 < p ! i then Inr (True, p) else Inl LibError),
      finalizeAllInputs =
        (\<lambda>p. if p \<noteq> [] \<and> list_all (\<lambda>c. 0 < c) p then Inr p else Inl LibError),
      extractTransaction = (\<lambda>p. Inr p),
      toHex = (\<lambda>t. map (\<lambda>c. if c = 0 then CHR ''0'' else CHR ''1'') t),
      inputCount = length,
      hasSignature = (\<lambda>p i. i < length p \<and> 0 < p ! i)\<rparr>"

section \<open>ProcessorTransaction.ts: toEdgeTransaction\<close>

text \<open>
  \<^verbatim>\<open>IProcessorTransaction\<close>, the address record of the processor and \<^verbatim>\<open>EdgeTransaction\<close> are
  declared outside the sources: the records hold the fields that \<^verbatim>\<open>toEdgeTransaction\<close>
  reads and writes. \<^verbatim>\<open>feeRateUsed\<close> is \<open>None\<close> when the returned object has no such
  field.
\<close>

record ProcessorOutput =
  out_amount :: string
  out_scriptPubkey :: string

record IProcessorTransaction =
  txid :: string
  hex :: string
  blockHeight :: int
  date :: int
  fees :: string
  tx_outputs :: "ProcessorOutput list"
  ourOuts :: "string list"
  ourAmount :: string

record AddressPath =
  format :: string
  changeIndex :: nat
  addressIndex :: nat

record IAddress =
  address_scriptPubkey :: string
  address_path :: "AddressPath option"

record FeeRate =
  satPerVByte :: int

record EdgeTransaction =
  currencyCode :: string
  edge_txid :: string
  edge_blockHeight :: int
  edge_date :: int
  nativeAmount :: string
  networkFee :: string
  signedTx :: string
  ourReceiveAddresses :: "string list"
  feeRateUsed :: "FeeRate option"

text \<open>
  What \<^verbatim>\<open>toEdgeTransaction\<close> is given besides the transaction, and the library functions
  it calls: \<^verbatim>\<open>parseInt\<close> (\<open>None\<close> is \<^verbatim>\<open>NaN\<close>); \<^verbatim>\<open>processor.fetchAddress\<close>, which may reject
  and may find no address; \<^verbatim>\<open>engineInfo.scriptTemplates?.replayProtection\<close>, a value of
  the type \<open>'t\<close> when it is there; \<^verbatim>\<open>isPathUsingDerivationLevelScriptHash\<close>, which
  ProcessorTransaction.ts imports from the key manager and which is not among the
  sources; \<^verbatim>\<open>walletTools.scriptPubkeyToAddress\<close>, applied to a locking script and a
  format, which may throw; \<^verbatim>\<open>currencyInfo.currencyCode\<close>; \<^verbatim>\<open>Transaction.fromHex\<close> and
  \<^verbatim>\<open>virtualSize\<close> of altcoin-js, on parsed transactions of the type \<open>'x\<close>; and the
  constructor \<^verbatim>\<open>new BN(text, 10)\<close> of bn.js. An address that is fetched is a record of
  its own: the assignment to the format of its path is not seen by a later fetch.
\<close>

record ('t, 'x) Collaborators =
  parseInt :: "string \<Rightarrow> int option"
  fetchAddress :: "string \<Rightarrow> error + IAddress option"
  replayProtection :: "'t option"
  isPathUsingDerivationLevelScriptHash :: "'t \<Rightarrow> AddressPath \<Rightarrow> bool"
  walletTools_scriptPubkeyToAddress :: "string \<Rightarrow> string \<Rightarrow> error + string"
  info_currencyCode :: string
  fromHex :: "string \<Rightarrow> error + 'x"
  virtualSize :: "'x \<Rightarrow> nat"
  new_BN :: "string \<Rightarrow> error + int"

text \<open>
  \<^verbatim>\<open>tx.outputs[parseInt(out)]\<close>: \<^verbatim>\<open>undefined\<close> (\<open>None\<close>) for \<^verbatim>\<open>NaN\<close> and for an index outside
  the array.
\<close>

definition output_at ::
  "('t, 'x) Collaborators \<Rightarrow> IProcessorTransaction \<Rightarrow> string \<Rightarrow> ProcessorOutput option" where
  "output_at env ptx out =
     (case parseInt env out of
        None \<Rightarrow> None
      | Some i \<Rightarrow>
          (if 0 \<le> i \<and> nat i < length (tx_outputs ptx) then Some (tx_outputs ptx ! nat i)
           else None))"

text \<open>
  The first \<^verbatim>\<open>if\<close> of the loop body: the assignment \<^verbatim>\<open>address.path.format = 'bip49'\<close>,
  made when the template is there, the address has a path and the path uses the
  template's derivation-level script hash.
\<close>

definition replay_protection_format ::
  "('t, 'x) Collaborators \<Rightarrow> IAddress option \<Rightarrow> IAddress option" where
  "replay_protection_format env address =
     (case replayProtection env of
        None \<Rightarrow> address
      | Some scriptTemplate \<Rightarrow>
          (case address of
             None \<Rightarrow> address
           | Some a \<Rightarrow>
               (case address_path a of
                  None \<Rightarrow> address
                | Some p \<Rightarrow>
                    (if isPathUsingDerivationLevelScriptHash env scriptTemplate p
                     then Some (a\<lparr>address_path := Some (p\<lparr>format := ''bip49''\<rparr>)\<rparr>)
                     else address))))"

text \<open>
  The loop over \<^verbatim>\<open>tx.ourOuts\<close>, with the list \<^verbatim>\<open>ourReceiveAddresses\<close> built so far.
  Destructuring an output that is \<^verbatim>\<open>undefined\<close> is a \<^verbatim>\<open>TypeError\<close>.
\<close>

fun receive_addresses ::
  "('t, 'x) Collaborators \<Rightarrow> IProcessorTransaction \<Rightarrow> string list \<Rightarrow> string list \<Rightarrow>
   error + string list" where
  "receive_addresses env ptx acc [] = Inr acc"
| "receive_addresses env ptx acc (out # rest) =
     (case output_at env ptx out of
        None \<Rightarrow> Inl TypeError
      | Some output \<Rightarrow>
          (case fetchAddress env (out_scriptPubkey output) of
             Inl e \<Rightarrow> Inl e
           | Inr fetched \<Rightarrow>
               (case replay_protection_format env fetched of
                  None \<Rightarrow> receive_addresses env ptx acc rest
                | Some address \<Rightarrow>
                    (case address_path address of
                       None \<Rightarrow> receive_addresses env ptx acc rest
                     | Some p \<Rightarrow>
                         (case walletTools_scriptPubkeyToAddress env
                                 (out_scriptPubkey output) (format p) of
                            Inl e \<Rightarrow> Inl e
                          | Inr addrStr \<Rightarrow>
                              receive_addresses env ptx (acc @ [addrStr]) rest)))))"

text \<open>
  bn.js: \<^verbatim>\<open>div\<close> asserts that the divisor is not zero and truncates the quotient towards
  zero; \<^verbatim>\<open>toNumber\<close> asserts that the value has at most 53 bits.
\<close>

definition bn_div :: "int \<Rightarrow> int \<Rightarrow> error + int" where
  "bn_div a b = (if b = 0 then Inl LibError else Inr (sgn a * sgn b * (\<bar>a\<bar> div \<bar>b\<bar>)))"

definition bn_toNumber :: "int \<Rightarrow> error + int" where
  "bn_toNumber a = (if \<bar>a\<bar> < 2 ^ 53 then Inr a else Inl LibError)"

text \<open>
  The body of the \<^verbatim>\<open>try\<close> block, up to the value of \<^verbatim>\<open>feeRate\<close>. \<^verbatim>\<open>new BN(vBytes, 10)\<close> of
  the number \<^verbatim>\<open>vBytes\<close> is that number.
\<close>

definition feeRate :: "('t, 'x) Collaborators \<Rightarrow> IProcessorTransaction \<Rightarrow> error + int" where
  "feeRate env ptx =
     (case fromHex env (hex ptx) of
        Inl e \<Rightarrow> Inl e
      | Inr altcoinTx \<Rightarrow>
          (let vBytes = virtualSize env altcoinTx in
           case new_BN env (fees ptx) of
             Inl e \<Rightarrow> Inl e
           | Inr f \<Rightarrow>
               (case bn_div f (int vBytes) of
                  Inl e \<Rightarrow> Inl e
                | Inr q \<Rightarrow> bn_toNumber q)))"

text \<open>\<^verbatim>\<open>feeRes\<close> after the \<^verbatim>\<open>try\<close> block: the \<^verbatim>\<open>catch\<close> swallows every exception.\<close>

definition feeRes :: "('t, 'x) Collaborators \<Rightarrow> IProcessorTransaction \<Rightarrow> FeeRate option" where
  "feeRes env ptx =
     (case feeRate env ptx of
        Inl _ \<Rightarrow> None
      | Inr r \<Rightarrow> Some \<lparr>satPerVByte = r\<rparr>)"

definition toEdgeTransaction ::
  "('t, 'x) Collaborators \<Rightarrow> IProcessorTransaction \<Rightarrow> error + EdgeTransaction" where
  "toEdgeTransaction env ptx =
     (case receive_addresses env ptx [] (ourOuts ptx) of
        Inl e \<Rightarrow> Inl e
      | Inr addresses \<Rightarrow>
          Inr \<lparr>currencyCode = info_currencyCode env,
               edge_txid = txid ptx,
               edge_blockHeight = blockHeight ptx,
               edge_date = date ptx,
               nativeAmount = ourAmount ptx,
               networkFee = fees ptx,
               signedTx = hex ptx,
               ourReceiveAddresses = addresses,
               feeRateUsed = feeRes env ptx\<rparr>)"

text \<open>
  The reading of the specification that the loop is compared with: the format an output
  of ours is displayed in is bip49 when its path matches the replay-protection template
  of the coin, and the format recorded on the path otherwise; the outputs displayed are
  those whose locking script has an address with a path.
\<close>

definition spec_display_format :: "('t, 'x) Collaborators \<Rightarrow> AddressPath \<Rightarrow> string" where
  "spec_display_format env p =
     (case replayProtection env of
        None \<Rightarrow> format p
      | Some scriptTemplate \<Rightarrow>
          (if isPathUsingDerivationLevelScriptHash env scriptTemplate p then ''bip49''
           else format p))"

definition spec_our_path ::
  "('t, 'x) Collaborators \<Rightarrow> IProcessorTransaction \<Rightarrow> string \<Rightarrow> (string \<times> AddressPath) option"
  where
  "spec_our_path env ptx out =
     (case output_at env ptx out of
        None \<Rightarrow> None
      | Some output \<Rightarrow>
          (case fetchAddress env (out_scriptPubkey output) of
             Inr (Some a) \<Rightarrow>
               (case address_path a of
                  None \<Rightarrow> None
                | Some p \<Rightarrow> Some (out_scriptPubkey output, p))
           | _ \<Rightarrow> None))"

text \<open>
  For the concrete evaluations: a transaction with three outputs, all of them ours; a
  processor that knows the first on a bip44 path with the change index 0, the second on
  a bip44 path with the change index 2 and the third without a path; a template that
  names the change index of the replay-protection paths; wallet tools that write the
  format in front of the locking script; a parser of hex text for which the virtual
  size of a transaction is half the length of the text; and a constructor of big
  numbers that reads decimal digits.
\<close>

definition stored_tx :: IProcessorTransaction where
  "stored_tx =
     \<lparr>txid = ''f1'', hex = ''0200000001'', blockHeight = 700000, date = 1600000000,
      fees = ''1000'',
      tx_outputs =
        [\<lparr>out_amount = ''4800'', out_scriptPubkey = ''76a91401''\<rparr>,
         \<lparr>out_amount = ''100'', out_scriptPubkey = ''a91402''\<rparr>,
         \<lparr>out_amount = ''7'', out_scriptPubkey = ''6a''\<rparr>],
      ourOuts = [''0'', ''1'', ''2''], ourAmount = ''4907''\<rparr>"

definition digit_value :: "char \<Rightarrow> int option" where
  "digit_value c =
     (let v = (of_char c :: nat)
      in if 48 \<le> v \<and> v \<le> 57 then Some (int v - 48) else None)"

fun decimal :: "int \<Rightarrow> string \<Rightarrow> int option" where
  "decimal acc [] = Some acc"
| "decimal acc (c # cs) =
     (case digit_value c of None \<Rightarrow> None | Some d \<Rightarrow> decimal (10 * acc + d) cs)"

definition demo_env :: "(nat, string) Collaborators" where
  "demo_env =
     \<lparr>parseInt = (\<lambda>s. if s = [] then None else decimal 0 s),
      fetchAddress =
        (\<lambda>spk.
           if spk = ''76a91401''
           then Inr (Some \<lparr>address_scriptPubkey = spk,
                   address_path = Some \<lparr>format = ''bip44'', changeIndex = 0, addressIndex = 5\<rparr>\<rparr>)
           else if spk = ''a91402''
           then Inr (Some \<lparr>address_scriptPubkey = spk,
                   address_path = Some \<lparr>format = ''bip44'', changeIndex = 2, addressIndex = 0\<rparr>\<rparr>)
           else if spk = ''6a''
           then Inr (Some \<lparr>address_scriptPubkey = spk, address_path = None\<rparr>)
           else Inr None),
      replayProtection = Some 2,
      isPathUsingDerivationLevelScriptHash = (\<lambda>t p. changeIndex p = t),
      walletTools_scriptPubkeyToAddress = (\<lambda>spk fmt. Inr (fmt @ '':'' @ spk)),
      info_currencyCode = ''BTC'',
      fromHex = (\<lambda>h. if h = [] \<or> odd (length h) then Inl LibError else Inr h),
      virtualSize = (\<lambda>t. length t div 2),
      new_BN = (\<lambda>s. case decimal 0 s of None \<Rightarrow> Inl LibError | Some v \<Rightarrow> Inr v)\<rparr>"

text \<open>
  The stored transaction with a fee of \<open>5 * 2 ^ 53\<close> base units, and with a hex text that
  the parser rejects.
\<close>

definition huge_fee_tx :: IProcessorTransaction where
  "huge_fee_tx = stored_tx\<lparr>fees := ''45035996273704960''\<rparr>"

definition unparsable_tx :: IProcessorTransaction where
  "unparsable_tx = stored_tx\<lparr>hex := ''020''\<rparr>"

text \<open>The stored transaction with an output of ours at an index it has no output for.\<close>

definition dangling_tx :: IProcessorTransaction where
  "dangling_tx = stored_tx\<lparr>ourOuts := [''0'', ''7'']\<rparr>"

section \<open>Properties of createTx\<close>

lemma createTx_input_sequence: "createTx_input sq i = Inr pin \<Longrightarrow> sequence pin = sq"
  by (auto simp: createTx_input_def split: if_splits option.splits)

lemma createTx_input_fields:
  "createTx_input sq i = Inr pin \<Longrightarrow>
     hash pin = prevTxid i \<and> psbt_index pin = index i \<and>
     psbt_redeemScript pin = (if input_type i = LegacyInput then None else redeemScript i) \<and>
     nonWitnessUtxo pin = (if input_type i = LegacyInput then prevTx i else None)"
  by (auto simp: createTx_input_def split: if_splits option.splits)

lemma createTx_input_Inl:
  "createTx_input sq i = Inl e \<longleftrightarrow>
     (legacy_lacks_prevTx i \<and>
        e = Error ''legacy inputs require the full previous transaction to be passed'') \<or>
     (segwit_lacks_field i \<and>
        e = Error ''segwit inputs require a script pubkey and value to be passed'')"
  by (auto simp: createTx_input_def legacy_lacks_prevTx_def segwit_lacks_field_def
      split: if_splits option.splits)

lemma createTx_inputs_added:
  "createTx_inputs lib sq p ins = Inr p' \<Longrightarrow>
     map Inr (psbt_inputs p') = map Inr (psbt_inputs p) @ map (createTx_input sq) ins \<and>
     psbt_outputs p' = psbt_outputs p"
proof (induction ins arbitrary: p)
  case Nil
  then show ?case by simp
next
  case (Cons i rest)
  from Cons.prems obtain pin p1 where
    a: "createTx_input sq i = Inr pin" and b: "addInput lib p pin = Inr p1"
    and c: "createTx_inputs lib sq p1 rest = Inr p'"
    by (auto split: sum.splits)
  from b have p1: "p1 = p\<lparr>psbt_inputs := psbt_inputs p @ [pin]\<rparr>"
    by (auto simp: addInput_def split: if_splits)
  from Cons.IH [OF c] show ?case by (simp add: p1 a)
qed

lemma createTx_inputs_Inl:
  "createTx_inputs lib sq p ins = Inl e \<Longrightarrow>
     e = LibError \<or> (\<exists>i \<in> set ins. createTx_input sq i = Inl e)"
proof (induction ins arbitrary: p)
  case Nil
  then show ?case by simp
next
  case (Cons i rest)
  show ?case
  proof (cases "createTx_input sq i")
    case (Inl e')
    with Cons.prems show ?thesis by simp
  next
    case (Inr pin)
    show ?thesis
    proof (cases "addInput lib p pin")
      case (Inl e')
      with Inr Cons.prems have "e = LibError"
        by (auto simp: addInput_def split: if_splits)
      then show ?thesis by simp
    next
      case (Inr p1)
      with \<open>createTx_input sq i = Inr pin\<close> Cons.prems
      have "createTx_inputs lib sq p1 rest = Inl e" by simp
      from Cons.IH [OF this] show ?thesis by auto
    qed
  qed
qed

lemma createTx_inputs_accepted:
  "(\<And>p x. acceptsInput lib p x) \<Longrightarrow> \<forall>i \<in> set ins. \<exists>pin. createTx_input sq i = Inr pin \<Longrightarrow>
     \<exists>p'. createTx_inputs lib sq p ins = Inr p'"
proof (induction ins arbitrary: p)
  case Nil
  then show ?case by simp
next
  case (Cons i rest)
  from Cons.prems(2) obtain pin where a: "createTx_input sq i = Inr pin" by auto
  have b: "addInput lib p pin = Inr (p\<lparr>psbt_inputs := psbt_inputs p @ [pin]\<rparr>)"
    by (simp add: addInput_def Cons.prems(1))
  from Cons.IH [of "p\<lparr>psbt_inputs := psbt_inputs p @ [pin]\<rparr>"] Cons.prems
  show ?case by (simp add: a b)
qed

lemma createTx_outputs_added:
  "createTx_outputs lib p outs = Inr p' \<Longrightarrow>
     psbt_outputs p' = psbt_outputs p @ map createTx_output outs \<and>
     psbt_inputs p' = psbt_inputs p"
proof (induction outs arbitrary: p)
  case Nil
  then show ?case by simp
next
  case (Cons out rest)
  from Cons.prems obtain p1 where
    b: "addOutput lib p (createTx_output out) = Inr p1"
    and c: "createTx_outputs lib p1 rest = Inr p'"
    by (auto split: sum.splits)
  from b have p1: "p1 = p\<lparr>psbt_outputs := psbt_outputs p @ [createTx_output out]\<rparr>"
    by (auto simp: addOutput_def split: if_splits)
  from Cons.IH [OF c] show ?case by (simp add: p1)
qed

lemma createTx_outputs_Inl: "createTx_outputs lib p outs = Inl e \<Longrightarrow> e = LibError"
proof (induction outs arbitrary: p)
  case Nil
  then show ?case by simp
next
  case (Cons out rest)
  then show ?case
    by (auto simp: addOutput_def split: sum.splits if_splits)
qed

lemma createTx_outputs_accepted:
  "(\<And>p x. acceptsOutput lib p x) \<Longrightarrow> \<exists>p'. createTx_outputs lib p outs = Inr p'"
proof (induction outs arbitrary: p)
  case Nil
  then show ?case by simp
next
  case (Cons out rest)
  then show ?case by (simp add: addOutput_def)
qed

lemma createTx_returns:
  assumes "createTx lib args = Inr d"
  shows "map Inr (psbt_inputs d) = map (createTx_input (createTx_sequence (rbf args))) (inputs args)
         \<and> psbt_outputs d = map createTx_output (outputs args)"
proof -
  from assms obtain p where
    a: "createTx_inputs lib (createTx_sequence (rbf args))
          \<lparr>psbt_inputs = [], psbt_outputs = []\<rparr> (inputs args) = Inr p"
    and b: "createTx_outputs lib p (outputs args) = Inr d"
    by (auto simp: createTx_def split: sum.splits)
  from createTx_inputs_added [OF a] createTx_outputs_added [OF b]
  show ?thesis by simp
qed

lemma createTx_returns_nth:
  assumes "createTx lib args = Inr d"
  shows "length (psbt_inputs d) = length (inputs args)"
    and "k < length (inputs args) \<Longrightarrow>
           createTx_input (createTx_sequence (rbf args)) (inputs args ! k) = Inr (psbt_inputs d ! k)"
proof -
  let ?sq = "createTx_sequence (rbf args)"
  have m: "map Inr (psbt_inputs d) = map (createTx_input ?sq) (inputs args)"
    using createTx_returns [OF assms] by simp
  show len: "length (psbt_inputs d) = length (inputs args)"
    using arg_cong [OF m, of length] by simp
  show "createTx_input ?sq (inputs args ! k) = Inr (psbt_inputs d ! k)"
    if "k < length (inputs args)"
    using arg_cong [OF m, of "\<lambda>xs. xs ! k"] that len by simp
qed

lemma createTx_fails:
  assumes "createTx lib args = Inl e"
  shows "e = LibError \<or>
         (\<exists>i \<in> set (inputs args). createTx_input (createTx_sequence (rbf args)) i = Inl e)"
proof (cases "createTx_inputs lib (createTx_sequence (rbf args))
                \<lparr>psbt_inputs = [], psbt_outputs = []\<rparr> (inputs args)")
  case (Inl e')
  with assms have "e' = e" by (simp add: createTx_def)
  with Inl createTx_inputs_Inl show ?thesis by blast
next
  case (Inr p)
  with assms have "createTx_outputs lib p (outputs args) = Inl e" by (simp add: createTx_def)
  then show ?thesis by (auto dest: createTx_outputs_Inl)
qed

lemma createTx_rbf_example:
  "createTx accepting \<lparr>network = Mainnet, inputs = [witness_input], outputs = [], rbf = True\<rparr>
     = Inr \<lparr>psbt_inputs =
              [\<lparr>hash = ''7d'', psbt_index = 0, sequence = 0xfffffffd, nonWitnessUtxo = None,
                witnessUtxo = Some \<lparr>utxo_script = ''00140101010101010101010101010101010101010101'',
                                    utxo_value = 5000\<rparr>,
                psbt_redeemScript = None\<rparr>],
            psbt_outputs = []\<rparr>"
  by (simp add: createTx_def createTx_sequence_def createTx_input_def addInput_def
      accepting_def witness_input_def)

lemma createTx_two_inputs_example:
  "createTx accepting
     \<lparr>network = Mainnet, inputs = [legacy_input, wrapped_input],
      outputs = [\<lparr>scriptPubkey = ''6a'', amount = 4800\<rparr>], rbf = False\<rparr>
     = Inr \<lparr>psbt_inputs =
              [\<lparr>hash = ''3c'', psbt_index = 2, sequence = 0xffffffff,
                nonWitnessUtxo = Some ''0100000000'', witnessUtxo = None,
                psbt_redeemScript = None\<rparr>,
               \<lparr>hash = ''7d'', psbt_index = 1, sequence = 0xffffffff, nonWitnessUtxo = None,
                witnessUtxo = Some \<lparr>utxo_script = ''a914010101010101010101010101010101010101010187'',
                                    utxo_value = 5000\<rparr>,
                psbt_redeemScript = None\<rparr>],
            psbt_outputs = [\<lparr>script = ''6a'', output_value = 4800\<rparr>]\<rparr>"
  by (simp add: createTx_def createTx_sequence_def createTx_input_def addInput_def addOutput_def
      createTx_output_def accepting_def legacy_input_def wrapped_input_def)

lemma createTx_incomplete_example:
  "createTx accepting
     \<lparr>network = Mainnet, inputs = [legacy_input, incomplete_input], outputs = [], rbf = False\<rparr>
     = Inl (Error ''segwit inputs require a script pubkey and value to be passed'')"
  by (simp add: createTx_def createTx_sequence_def createTx_input_def addInput_def
      accepting_def legacy_input_def incomplete_input_def)

text \<open>
  C2, as the code has it. When \<^verbatim>\<open>createTx\<close> returns a draft, the draft has one input for
  each input of the caller and every one of them carries the same sequence number:
  \<^verbatim>\<open>0xffffffff\<close> when \<^verbatim>\<open>rbf\<close> is false, and \<^verbatim>\<open>0xffffffff - 2 = 0xfffffffd\<close> when \<^verbatim>\<open>rbf\<close> is true.
\<close>

theorem createTx_sequence_numbers:
  assumes "createTx lib args = Inr d"
  shows "length (psbt_inputs d) = length (inputs args) \<and>
         (\<forall>pin \<in> set (psbt_inputs d).
            sequence pin = (if rbf args then 0xfffffffd else 0xffffffff))"
proof -
  let ?sq = "createTx_sequence (rbf args)"
  have len: "length (psbt_inputs d) = length (inputs args)"
    using createTx_returns_nth(1) [OF assms] .
  have "sequence pin = ?sq" if "pin \<in> set (psbt_inputs d)" for pin
  proof -
    from that obtain k where k: "k < length (psbt_inputs d)" and pin: "psbt_inputs d ! k = pin"
      by (auto simp: in_set_conv_nth)
    from createTx_returns_nth(2) [OF assms, of k] k len pin
    show ?thesis by (auto dest: createTx_input_sequence)
  qed
  moreover have "?sq = (if rbf args then 0xfffffffd else 0xffffffff)"
    by (simp add: createTx_sequence_def)
  ultimately show ?thesis using len by simp
qed

theorem createTx_sequence_numbers_witness:
  "createTx accepting
     \<lparr>network = Mainnet, inputs = [legacy_input, wrapped_input],
      outputs = [\<lparr>scriptPubkey = ''6a'', amount = 4800\<rparr>], rbf = False\<rparr>
     = Inr \<lparr>psbt_inputs =
              [\<lparr>hash = ''3c'', psbt_index = 2, sequence = 0xffffffff,
                nonWitnessUtxo = Some ''0100000000'', witnessUtxo = None,
                psbt_redeemScript = None\<rparr>,
               \<lparr>hash = ''7d'', psbt_index = 1, sequence = 0xffffffff, nonWitnessUtxo = None,
                witnessUtxo = Some \<lparr>utxo_script = ''a914010101010101010101010101010101010101010187'',
                                    utxo_value = 5000\<rparr>,
                psbt_redeemScript = None\<rparr>],
            psbt_outputs = [\<lparr>script = ''6a'', output_value = 4800\<rparr>]\<rparr>
   \<and> map sequence
       [\<lparr>hash = ''3c'', psbt_index = 2, sequence = 0xffffffff,
         nonWitnessUtxo = Some ''0100000000'', witnessUtxo = None, psbt_redeemScript = None\<rparr>,
        \<lparr>hash = ''7d'', psbt_index = 1, sequence = 0xffffffff, nonWitnessUtxo = None,
         witnessUtxo = Some \<lparr>utxo_script = ''a914010101010101010101010101010101010101010187'',
                             utxo_value = 5000\<rparr>,
         psbt_redeemScript = None\<rparr>] = [0xffffffff, 0xffffffff]"
  using createTx_sequence_numbers [OF createTx_two_inputs_example] createTx_two_inputs_example
  by simp

text \<open>
  C2 as the specification states it fails: with \<^verbatim>\<open>rbf\<close> set, the sequence number of an
  input is \<^verbatim>\<open>0xfffffffd\<close>, which is not \<^verbatim>\<open>0xfffffffc\<close>; its lowest bit is still set.
\<close>

theorem createTx_rbf_sequence_counterexample:
  "createTx accepting \<lparr>network = Mainnet, inputs = [witness_input], outputs = [], rbf = True\<rparr>
     = Inr \<lparr>psbt_inputs =
              [\<lparr>hash = ''7d'', psbt_index = 0, sequence = 0xfffffffd, nonWitnessUtxo = None,
                witnessUtxo = Some \<lparr>utxo_script = ''00140101010101010101010101010101010101010101'',
                                    utxo_value = 5000\<rparr>,
                psbt_redeemScript = None\<rparr>],
            psbt_outputs = []\<rparr>
   \<and> (0xfffffffd :: nat) \<noteq> 0xfffffffc
   \<and> (0xfffffffd :: nat) mod 4 = 1"
  by (simp add: createTx_rbf_example)

text \<open>
  What \<^verbatim>\<open>createTx\<close> checks. (1) When an input lacks a field that the code checks for its
  kind (a legacy input its previous transaction, any other input its script pubkey or
  its value), \<^verbatim>\<open>createTx\<close> throws and returns no draft. (2) When it throws an error of
  its own, the message is that of the legacy check and a legacy input lacks its previous
  transaction, or it is that of the segwit check and a segwit input lacks its script
  pubkey or its value. (3) When no input lacks a checked field, \<^verbatim>\<open>createTx\<close> throws only
  when the Psbt library refuses an input or an output, and returns a draft when the
  library refuses none. (4) A draft that is returned has the inputs and the outputs of
  the caller, in the caller's order.
\<close>

lemma createTx_validates_inputs:
  "((\<exists>i \<in> set (inputs args). legacy_lacks_prevTx i \<or> segwit_lacks_field i) \<longrightarrow>
      (\<exists>e. createTx lib args = Inl e))
   \<and> (createTx lib args = Inl (Error m) \<longrightarrow>
        (m = ''legacy inputs require the full previous transaction to be passed'' \<and>
         (\<exists>i \<in> set (inputs args). legacy_lacks_prevTx i)) \<or>
        (m = ''segwit inputs require a script pubkey and value to be passed'' \<and>
         (\<exists>i \<in> set (inputs args). segwit_lacks_field i)))
   \<and> ((\<forall>i \<in> set (inputs args). \<not> legacy_lacks_prevTx i \<and> \<not> segwit_lacks_field i) \<and>
       createTx lib args = Inl e \<longrightarrow> e = LibError)
   \<and> ((\<forall>i \<in> set (inputs args). \<not> legacy_lacks_prevTx i \<and> \<not> segwit_lacks_field i) \<and>
       (\<forall>p x. acceptsInput lib p x) \<and> (\<forall>p x. acceptsOutput lib p x) \<longrightarrow>
         (\<exists>d. createTx lib args = Inr d))
   \<and> (createTx lib args = Inr d \<longrightarrow>
        map hash (psbt_inputs d) = map prevTxid (inputs args) \<and>
        map psbt_index (psbt_inputs d) = map index (inputs args) \<and>
        map psbt_redeemScript (psbt_inputs d) =
          map (\<lambda>i. if input_type i = LegacyInput then None else redeemScript i) (inputs args) \<and>
        psbt_outputs d = map createTx_output (outputs args))"
proof (intro conjI impI)
  let ?sq = "createTx_sequence (rbf args)"
  show "\<exists>e. createTx lib args = Inl e"
    if "\<exists>i \<in> set (inputs args). legacy_lacks_prevTx i \<or> segwit_lacks_field i"
  proof (cases "createTx lib args")
    case (Inl e)
    then show ?thesis by blast
  next
    case (Inr d)
    from that obtain i where i: "i \<in> set (inputs args)"
      and bad: "legacy_lacks_prevTx i \<or> segwit_lacks_field i" by blast
    from bad obtain e where "createTx_input ?sq i = Inl e"
      using createTx_input_Inl [of ?sq i] by blast
    moreover from i obtain k where "k < length (inputs args)" "inputs args ! k = i"
      by (auto simp: in_set_conv_nth)
    ultimately show ?thesis using createTx_returns_nth(2) [OF Inr, of k] by simp
  qed
  show "(m = ''legacy inputs require the full previous transaction to be passed'' \<and>
         (\<exists>i \<in> set (inputs args). legacy_lacks_prevTx i)) \<or>
        (m = ''segwit inputs require a script pubkey and value to be passed'' \<and>
         (\<exists>i \<in> set (inputs args). segwit_lacks_field i))"
    if "createTx lib args = Inl (Error m)"
  proof -
    from createTx_fails [OF that] obtain i where "i \<in> set (inputs args)"
      and "createTx_input ?sq i = Inl (Error m)" by auto
    then show ?thesis using createTx_input_Inl [of ?sq i "Error m"] by auto
  qed
  show "e = LibError"
    if h: "(\<forall>i \<in> set (inputs args). \<not> legacy_lacks_prevTx i \<and> \<not> segwit_lacks_field i) \<and>
       createTx lib args = Inl e"
  proof (rule ccontr)
    assume "e \<noteq> LibError"
    with h createTx_fails [of lib args e] obtain i where "i \<in> set (inputs args)"
      and "createTx_input ?sq i = Inl e" by auto
    with h show False using createTx_input_Inl [of ?sq i e] by auto
  qed
  show "\<exists>d. createTx lib args = Inr d"
    if h: "(\<forall>i \<in> set (inputs args). \<not> legacy_lacks_prevTx i \<and> \<not> segwit_lacks_field i) \<and>
       (\<forall>p x. acceptsInput lib p x) \<and> (\<forall>p x. acceptsOutput lib p x)"
  proof -
    have "\<forall>i \<in> set (inputs args). \<exists>pin. createTx_input ?sq i = Inr pin"
    proof
      fix i assume "i \<in> set (inputs args)"
      with h have "\<not> legacy_lacks_prevTx i" "\<not> segwit_lacks_field i" by auto
      then have "\<And>e. createTx_input ?sq i \<noteq> Inl e" by (simp add: createTx_input_Inl)
      then show "\<exists>pin. createTx_input ?sq i = Inr pin" by (cases "createTx_input ?sq i") auto
    qed
    with h obtain p where
      p: "createTx_inputs lib ?sq \<lparr>psbt_inputs = [], psbt_outputs = []\<rparr> (inputs args) = Inr p"
      using createTx_inputs_accepted [of lib "inputs args" ?sq] by blast
    from h obtain d where "createTx_outputs lib p (outputs args) = Inr d"
      using createTx_outputs_accepted [of lib p "outputs args"] by blast
    with p show ?thesis by (simp add: createTx_def)
  qed
next
  assume r: "createTx lib args = Inr d"
  let ?sq = "createTx_sequence (rbf args)"
  have len: "length (psbt_inputs d) = length (inputs args)"
    using createTx_returns_nth(1) [OF r] .
  have nth: "createTx_input ?sq (inputs args ! k) = Inr (psbt_inputs d ! k)"
    if "k < length (inputs args)" for k
    using createTx_returns_nth(2) [OF r that] .
  show "map hash (psbt_inputs d) = map prevTxid (inputs args)"
    using len by (auto simp: list_eq_iff_nth_eq dest!: nth createTx_input_fields)
  show "map psbt_index (psbt_inputs d) = map index (inputs args)"
    using len by (auto simp: list_eq_iff_nth_eq dest!: nth createTx_input_fields)
  show "map psbt_redeemScript (psbt_inputs d) =
          map (\<lambda>i. if input_type i = LegacyInput then None else redeemScript i) (inputs args)"
    using len by (auto simp: list_eq_iff_nth_eq dest!: nth createTx_input_fields)
  show "psbt_outputs d = map createTx_output (outputs args)"
    using createTx_returns [OF r] by simp
qed

text \<open>
  C3: the fields that \<^verbatim>\<open>TxInput\<close> documents as required are checked, but for the redeem
  script. A legacy input without its previous transaction and a segwit input without
  its value make \<^verbatim>\<open>createTx\<close> throw the error of their kind. A segwit input with its
  script pubkey and value and without a redeem script passes the checks whatever
  script it spends: for the input that spends a P2SH output, \<^verbatim>\<open>createTx\<close> returns a
  draft that holds the input with its witness output and without a redeem script,
  where the claim has it throw.
\<close>

theorem createTx_missing_redeemScript_accepted:
  "createTx_input sq
      (i\<lparr>input_type := SegwitInput, prevScriptPubkey := Some spk, input_value := Some v,
         redeemScript := None\<rparr>)
     = Inr \<lparr>hash = prevTxid i, psbt_index = index i, sequence = sq, nonWitnessUtxo = None,
            witnessUtxo = Some \<lparr>utxo_script = spk, utxo_value = v\<rparr>,
            psbt_redeemScript = None\<rparr>
   \<and> createTx accepting
       \<lparr>network = Mainnet, inputs = [p2sh_spending_input], outputs = [], rbf = False\<rparr>
       = Inr \<lparr>psbt_inputs =
                [\<lparr>hash = ''7d7d7d7d7d7d7d7d7d7d7d7d7d7d7d7d7d7d7d7d7d7d7d7d7d7d7d7d7d7d7d7d'',
                  psbt_index = 1, sequence = 0xffffffff, nonWitnessUtxo = None,
                  witnessUtxo =
                    Some \<lparr>utxo_script = ''a914010101010101010101010101010101010101010187'',
                          utxo_value = 5000\<rparr>,
                  psbt_redeemScript = None\<rparr>],
              psbt_outputs = []\<rparr>
   \<and> createTx accepting
       \<lparr>network = Mainnet, inputs = [legacy_input, incomplete_input], outputs = [],
        rbf = False\<rparr>
       = Inl (Error ''segwit inputs require a script pubkey and value to be passed'')
   \<and> createTx accepting
       \<lparr>network = Mainnet, inputs = [legacy_input_without_prevTx], outputs = [], rbf = False\<rparr>
       = Inl (Error ''legacy inputs require the full previous transaction to be passed'')"
proof -
  have "createTx_input sq
      (i\<lparr>input_type := SegwitInput, prevScriptPubkey := Some spk, input_value := Some v,
         redeemScript := None\<rparr>)
     = Inr \<lparr>hash = prevTxid i, psbt_index = index i, sequence = sq, nonWitnessUtxo = None,
            witnessUtxo = Some \<lparr>utxo_script = spk, utxo_value = v\<rparr>,
            psbt_redeemScript = None\<rparr>"
    by (simp add: createTx_input_def)
  moreover have "createTx accepting
       \<lparr>network = Mainnet, inputs = [p2sh_spending_input], outputs = [], rbf = False\<rparr>
       = Inr \<lparr>psbt_inputs =
                [\<lparr>hash = ''7d7d7d7d7d7d7d7d7d7d7d7d7d7d7d7d7d7d7d7d7d7d7d7d7d7d7d7d7d7d7d7d'',
                  psbt_index = 1, sequence = 0xffffffff, nonWitnessUtxo = None,
                  witnessUtxo =
                    Some \<lparr>utxo_script = ''a914010101010101010101010101010101010101010187'',
                          utxo_value = 5000\<rparr>,
                  psbt_redeemScript = None\<rparr>],
              psbt_outputs = []\<rparr>"
    by (simp add: createTx_def createTx_sequence_def createTx_input_def addInput_def
        accepting_def p2sh_spending_input_def)
  moreover have "createTx accepting
       \<lparr>network = Mainnet, inputs = [legacy_input_without_prevTx], outputs = [], rbf = False\<rparr>
       = Inl (Error ''legacy inputs require the full previous transaction to be passed'')"
    by (simp add: createTx_def createTx_sequence_def createTx_input_def
        legacy_input_without_prevTx_def)
  ultimately show ?thesis using createTx_incomplete_example by (intro conjI)
qed

section \<open>Properties of the key derivation\<close>

lemma bip32NetworkFromCoinPrefix_pair:
  "map_sum id net_bip32 (bip32NetworkFromCoinPrefix purpose cp sw) =
     (case spec_registered_pair purpose cp of
        Some pair \<Rightarrow> Inr pair
      | None \<Rightarrow> Inl (unsupported_purpose purpose))"
  by (cases purpose)
    (auto simp: bip32NetworkFromCoinPrefix_def spec_registered_pair_def unsupported_purpose_def
      split: option.splits)

lemma bip32NetworkFromCoinPrefix_unsupported:
  "spec_registered_pair purpose cp = None \<Longrightarrow>
     bip32NetworkFromCoinPrefix purpose cp sw = Inl (unsupported_purpose purpose)"
  using bip32NetworkFromCoinPrefix_pair [of purpose cp sw]
  by (cases "bip32NetworkFromCoinPrefix purpose cp sw") auto

lemma bip32NetworkFromCoin_prefixes:
  "getCoinFromString c = Inr coin \<Longrightarrow>
     bip32NetworkFromCoin getCoinFromString n c purpose =
       bip32NetworkFromCoinPrefix purpose (prefixes_of coin n) (segwit coin)"
  by (simp add: bip32NetworkFromCoin_def prefixes_of_def)

lemma bip32NetworkFromCoin_unsupported:
  "getCoinFromString c = Inr coin \<Longrightarrow> spec_registered_pair purpose (prefixes_of coin n) = None \<Longrightarrow>
     bip32NetworkFromCoin getCoinFromString n c purpose = Inl (unsupported_purpose purpose)"
  by (simp add: bip32NetworkFromCoin_prefixes bip32NetworkFromCoinPrefix_unsupported)

text \<open>
  C1: \<^verbatim>\<open>xpubToPubkey\<close> derives at the indices it is given, \<^verbatim>\<open>xprivToPrivateKey\<close> does not.
  Whatever the change index \<open>c\<close> and the address index \<open>a\<close> in its arguments,
  \<^verbatim>\<open>xprivToPrivateKey\<close> returns what it returns for the indices 0 and 0; with the library
  whose keys are derivation paths, it returns the key of the path 0/0 where
  \<^verbatim>\<open>xpubToPubkey\<close> returns the key of the path \<open>c\<close>/\<open>a\<close>, for instance for the change
  index 1 and the address index 5.
\<close>

theorem xprivToPrivateKey_derives_0_0:
  "xprivToPrivateKey coins lib
      (args\<lparr>xp_bip44ChangeIndex := c, xp_bip44AddressIndex := a\<rparr>)
     = xprivToPrivateKey coins lib
         (args\<lparr>xp_bip44ChangeIndex := 0, xp_bip44AddressIndex := 0\<rparr>)
   \<and> xprivToPrivateKey one_coin path_lib
        \<lparr>xpriv = ''xprv'', xp_network = Mainnet, xp_type = Legacy,
         xp_bip44ChangeIndex = c, xp_bip44AddressIndex = a, xp_coin = ''bitcoin''\<rparr>
       = Inr [0, 0]
   \<and> xpubToPubkey one_coin path_lib
        \<lparr>xpub = ''xpub'', pk_network = Mainnet, pk_type = Legacy,
         bip44ChangeIndex = c, bip44AddressIndex = a, pk_coin = ''bitcoin''\<rparr>
       = Inr [c, a]
   \<and> xprivToPrivateKey one_coin path_lib
        \<lparr>xpriv = ''xprv'', xp_network = Mainnet, xp_type = Legacy,
         xp_bip44ChangeIndex = 1, xp_bip44AddressIndex = 5, xp_coin = ''bitcoin''\<rparr>
       \<noteq> Inr [1, 5]"
proof -
  have net: "bip32NetworkFromCoin one_coin Mainnet ''bitcoin'' Legacy
               = bip32NetworkFromCoinPrefix Legacy btc_main True"
    by (simp add: bip32NetworkFromCoin_def one_coin_def)
  have ok: "\<exists>n. bip32NetworkFromCoinPrefix Legacy btc_main True = Inr n"
    by (simp add: bip32NetworkFromCoinPrefix_def)
  have priv: "xprivToPrivateKey one_coin path_lib
        \<lparr>xpriv = ''xprv'', xp_network = Mainnet, xp_type = Legacy,
         xp_bip44ChangeIndex = c', xp_bip44AddressIndex = a', xp_coin = ''bitcoin''\<rparr>
       = Inr [0, 0]" for c' a'
    using ok by (auto simp: xprivToPrivateKey_def net path_lib_def)
  have pub: "xpubToPubkey one_coin path_lib
        \<lparr>xpub = ''xpub'', pk_network = Mainnet, pk_type = Legacy,
         bip44ChangeIndex = c, bip44AddressIndex = a, pk_coin = ''bitcoin''\<rparr>
       = Inr [c, a]"
    using ok by (auto simp: xpubToPubkey_def net path_lib_def)
  have indep: "xprivToPrivateKey coins lib
      (args\<lparr>xp_bip44ChangeIndex := c, xp_bip44AddressIndex := a\<rparr>)
     = xprivToPrivateKey coins lib
         (args\<lparr>xp_bip44ChangeIndex := 0, xp_bip44AddressIndex := 0\<rparr>)"
    by (simp add: xprivToPrivateKey_def cong: sum.case_cong)
  show ?thesis using indep priv [of c a] priv [of 1 5] pub by simp
qed

lemma bip32NetworkFromCoin_pair:
  "getCoinFromString c = Inr coin \<Longrightarrow>
     map_sum id net_bip32 (bip32NetworkFromCoin getCoinFromString n c purpose) =
       (case spec_registered_pair purpose (prefixes_of coin n) of
          Some pair \<Rightarrow> Inr pair
        | None \<Rightarrow> Inl (unsupported_purpose purpose))"
  by (simp add: bip32NetworkFromCoin_prefixes bip32NetworkFromCoinPrefix_pair)

lemma bip32NetworkFromCoin_registered:
  assumes "getCoinFromString c = Inr coin"
    and "spec_registered_pair purpose (prefixes_of coin n) = Some pair"
  obtains net where "bip32NetworkFromCoin getCoinFromString n c purpose = Inr net"
    and "net_bip32 net = pair"
  using bip32NetworkFromCoin_pair [where getCoinFromString = getCoinFromString and c = c
      and coin = coin and n = n and purpose = purpose] assms
  by (cases "bip32NetworkFromCoin getCoinFromString n c purpose") auto

text \<open>
  C4. The pair of version bytes of the network that \<open>bip32NetworkFromCoinPrefix\<close>
  returns, and that \<open>bip32NetworkFromCoin\<close> returns for a coin of the table, is the pair
  registered for the purpose in the prefixes of the coin on the network, and the call
  throws the error of the purpose when the prefixes lack the pair; it returns no network
  then, so never one with the legacy pair. For a coin whose prefixes on the requested
  network lack the pair of the requested purpose, \<^verbatim>\<open>xprivToXPub\<close>, \<^verbatim>\<open>xpubToPubkey\<close> and
  \<^verbatim>\<open>xprivToPrivateKey\<close> throw that error, and \<^verbatim>\<open>mnemonicToXPriv\<close> returns no key and throws
  that error once the root has been built from the seed. For a coin that has the pair,
  the four operations parse, or label, their key with a network that carries exactly
  that pair.
\<close>

theorem purpose_selects_registered_pair:
  "map_sum id net_bip32 (bip32NetworkFromCoinPrefix purpose cp sw) =
     (case spec_registered_pair purpose cp of
        Some pair \<Rightarrow> Inr pair
      | None \<Rightarrow> Inl (unsupported_purpose purpose))
   \<and> (getCoinFromString c = Inr coin \<longrightarrow>
        map_sum id net_bip32 (bip32NetworkFromCoin getCoinFromString n c purpose) =
          (case spec_registered_pair purpose (prefixes_of coin n) of
             Some pair \<Rightarrow> Inr pair
           | None \<Rightarrow> Inl (unsupported_purpose purpose)))
   \<and> (getCoinFromString c = Inr coin \<and> spec_registered_pair purpose (prefixes_of coin n) = None \<longrightarrow>
        bip32NetworkFromCoin getCoinFromString n c purpose = Inl (unsupported_purpose purpose) \<and>
        xprivToXPub getCoinFromString lib
          \<lparr>xx_xpriv = k, xx_network = n, xx_type = purpose, xx_coin = c\<rparr>
          = Inl (unsupported_purpose purpose) \<and>
        xpubToPubkey getCoinFromString lib
          \<lparr>xpub = k, pk_network = n, pk_type = purpose, bip44ChangeIndex = ci,
           bip44AddressIndex = ai, pk_coin = c\<rparr>
          = Inl (unsupported_purpose purpose) \<and>
        xprivToPrivateKey getCoinFromString lib
          \<lparr>xpriv = k, xp_network = n, xp_type = purpose, xp_bip44ChangeIndex = ci,
           xp_bip44AddressIndex = ai, xp_coin = c\<rparr>
          = Inl (unsupported_purpose purpose) \<and>
        (\<exists>e. mnemonicToXPriv getCoinFromString lib
                \<lparr>mnemonic = m, path = pth, mx_network = n, mx_type = purpose, mx_coin = c\<rparr>
                = Inl e \<and>
              ((\<exists>root. fromSeed lib (mnemonicToSeedSync lib m) = Inr root) \<longrightarrow>
                 e = unsupported_purpose purpose)))
   \<and> (getCoinFromString c = Inr coin \<and>
       spec_registered_pair purpose (prefixes_of coin n) = Some pair \<longrightarrow>
        (\<exists>net. bip32NetworkFromCoin getCoinFromString n c purpose = Inr net \<and>
           net_bip32 net = pair \<and>
           xprivToXPub getCoinFromString lib
             \<lparr>xx_xpriv = k, xx_network = n, xx_type = purpose, xx_coin = c\<rparr>
             = (case fromBase58 lib k net of
                  Inl e \<Rightarrow> Inl e
                | Inr node \<Rightarrow> Inr (toBase58 lib (neutered lib node))) \<and>
           xpubToPubkey getCoinFromString lib
             \<lparr>xpub = k, pk_network = n, pk_type = purpose, bip44ChangeIndex = ci,
              bip44AddressIndex = ai, pk_coin = c\<rparr>
             = (case fromBase58 lib k net of
                  Inl e \<Rightarrow> Inl e
                | Inr node \<Rightarrow>
                    (case derive lib node ci of
                       Inl e \<Rightarrow> Inl e
                     | Inr change \<Rightarrow>
                         (case derive lib change ai of
                            Inl e \<Rightarrow> Inl e
                          | Inr leaf \<Rightarrow> Inr (publicKey lib leaf)))) \<and>
           xprivToPrivateKey getCoinFromString lib
             \<lparr>xpriv = k, xp_network = n, xp_type = purpose, xp_bip44ChangeIndex = ci,
              xp_bip44AddressIndex = ai, xp_coin = c\<rparr>
             = (case fromBase58 lib k net of
                  Inl e \<Rightarrow> Inl e
                | Inr node \<Rightarrow>
                    (case derive lib node 0 of
                       Inl e \<Rightarrow> Inl e
                     | Inr change \<Rightarrow>
                         (case derive lib change 0 of
                            Inl e \<Rightarrow> Inl e
                          | Inr leaf \<Rightarrow>
                              (case privateKey lib leaf of
                                 None \<Rightarrow> Inl (Error ''Failed to generate private key from xpriv'')
                               | Some key \<Rightarrow> Inr key)))) \<and>
           mnemonicToXPriv getCoinFromString lib
             \<lparr>mnemonic = m, path = pth, mx_network = n, mx_type = purpose, mx_coin = c\<rparr>
             = (case fromSeed lib (mnemonicToSeedSync lib m) of
                  Inl e \<Rightarrow> Inl e
                | Inr root \<Rightarrow>
                    (case derivePath lib (setNetwork lib root net) pth of
                       Inl e \<Rightarrow> Inl e
                     | Inr child \<Rightarrow> Inr (toBase58 lib child)))))"
proof (intro conjI impI)
  show "map_sum id net_bip32 (bip32NetworkFromCoinPrefix purpose cp sw) =
     (case spec_registered_pair purpose cp of
        Some pair \<Rightarrow> Inr pair
      | None \<Rightarrow> Inl (unsupported_purpose purpose))"
    by (rule bip32NetworkFromCoinPrefix_pair)
  show "map_sum id net_bip32 (bip32NetworkFromCoin getCoinFromString n c purpose) =
          (case spec_registered_pair purpose (prefixes_of coin n) of
             Some pair \<Rightarrow> Inr pair
           | None \<Rightarrow> Inl (unsupported_purpose purpose))"
    if "getCoinFromString c = Inr coin"
    using bip32NetworkFromCoin_pair [where getCoinFromString = getCoinFromString and c = c
        and coin = coin and n = n and purpose = purpose] that
    by simp
next
  assume h: "getCoinFromString c = Inr coin \<and>
             spec_registered_pair purpose (prefixes_of coin n) = None"
  then have net: "bip32NetworkFromCoin getCoinFromString n c purpose
                    = Inl (unsupported_purpose purpose)"
    by (simp add: bip32NetworkFromCoin_unsupported)
  show "bip32NetworkFromCoin getCoinFromString n c purpose = Inl (unsupported_purpose purpose)"
    by (rule net)
  show "xprivToXPub getCoinFromString lib
          \<lparr>xx_xpriv = k, xx_network = n, xx_type = purpose, xx_coin = c\<rparr>
          = Inl (unsupported_purpose purpose)"
    by (simp add: xprivToXPub_def net)
  show "xpubToPubkey getCoinFromString lib
          \<lparr>xpub = k, pk_network = n, pk_type = purpose, bip44ChangeIndex = ci,
           bip44AddressIndex = ai, pk_coin = c\<rparr>
          = Inl (unsupported_purpose purpose)"
    by (simp add: xpubToPubkey_def net)
  show "xprivToPrivateKey getCoinFromString lib
          \<lparr>xpriv = k, xp_network = n, xp_type = purpose, xp_bip44ChangeIndex = ci,
           xp_bip44AddressIndex = ai, xp_coin = c\<rparr>
          = Inl (unsupported_purpose purpose)"
    by (simp add: xprivToPrivateKey_def net)
  show "\<exists>e. mnemonicToXPriv getCoinFromString lib
                \<lparr>mnemonic = m, path = pth, mx_network = n, mx_type = purpose, mx_coin = c\<rparr>
                = Inl e \<and>
              ((\<exists>root. fromSeed lib (mnemonicToSeedSync lib m) = Inr root) \<longrightarrow>
                 e = unsupported_purpose purpose)"
    by (cases "fromSeed lib (mnemonicToSeedSync lib m)")
      (simp_all add: mnemonicToXPriv_def net)
next
  assume h: "getCoinFromString c = Inr coin \<and>
             spec_registered_pair purpose (prefixes_of coin n) = Some pair"
  then obtain net where net: "bip32NetworkFromCoin getCoinFromString n c purpose = Inr net"
    and pair: "net_bip32 net = pair"
    by (auto elim: bip32NetworkFromCoin_registered)
  show "\<exists>net. bip32NetworkFromCoin getCoinFromString n c purpose = Inr net \<and>
           net_bip32 net = pair \<and>
           xprivToXPub getCoinFromString lib
             \<lparr>xx_xpriv = k, xx_network = n, xx_type = purpose, xx_coin = c\<rparr>
             = (case fromBase58 lib k net of
                  Inl e \<Rightarrow> Inl e
                | Inr node \<Rightarrow> Inr (toBase58 lib (neutered lib node))) \<and>
           xpubToPubkey getCoinFromString lib
             \<lparr>xpub = k, pk_network = n, pk_type = purpose, bip44ChangeIndex = ci,
              bip44AddressIndex = ai, pk_coin = c\<rparr>
             = (case fromBase58 lib k net of
                  Inl e \<Rightarrow> Inl e
                | Inr node \<Rightarrow>
                    (case derive lib node ci of
                       Inl e \<Rightarrow> Inl e
                     | Inr change \<Rightarrow>
                         (case derive lib change ai of
                            Inl e \<Rightarrow> Inl e
                          | Inr leaf \<Rightarrow> Inr (publicKey lib leaf)))) \<and>
           xprivToPrivateKey getCoinFromString lib
             \<lparr>xpriv = k, xp_network = n, xp_type = purpose, xp_bip44ChangeIndex = ci,
              xp_bip44AddressIndex = ai, xp_coin = c\<rparr>
             = (case fromBase58 lib k net of
                  Inl e \<Rightarrow> Inl e
                | Inr node \<Rightarrow>
                    (case derive lib node 0 of
                       Inl e \<Rightarrow> Inl e
                     | Inr change \<Rightarrow>
                         (case derive lib change 0 of
                            Inl e \<Rightarrow> Inl e
                          | Inr leaf \<Rightarrow>
                              (case privateKey lib leaf of
                                 None \<Rightarrow> Inl (Error ''Failed to generate private key from xpriv'')
                               | Some key \<Rightarrow> Inr key)))) \<and>
           mnemonicToXPriv getCoinFromString lib
             \<lparr>mnemonic = m, path = pth, mx_network = n, mx_type = purpose, mx_coin = c\<rparr>
             = (case fromSeed lib (mnemonicToSeedSync lib m) of
                  Inl e \<Rightarrow> Inl e
                | Inr root \<Rightarrow>
                    (case derivePath lib (setNetwork lib root net) pth of
                       Inl e \<Rightarrow> Inl e
                     | Inr child \<Rightarrow> Inr (toBase58 lib child)))"
    by (rule exI [of _ net])
      (simp add: net pair xprivToXPub_def xpubToPubkey_def xprivToPrivateKey_def
        mnemonicToXPriv_def cong: sum.case_cong option.case_cong)
qed

theorem purpose_selects_registered_pair_witness:
  "map_sum id net_bip32 (bip32NetworkFromCoinPrefix Segwit btc_main True)
     = Inr \<lparr>bip32_public = 0x04b24746, bip32_private = 0x04b2430c\<rparr>
   \<and> map_sum id net_bip32 (bip32NetworkFromCoinPrefix WrappedSegwit legacy_only True)
       = Inl (Error ''wrapped segwit xpub prefix is undefined'')
   \<and> map_sum id net_bip32 (bip32NetworkFromCoin one_coin Mainnet ''bitcoin'' Segwit)
       = Inr \<lparr>bip32_public = 0x04b24746, bip32_private = 0x04b2430c\<rparr>
   \<and> map_sum id net_bip32 (bip32NetworkFromCoin one_coin Mainnet ''bitcoin'' WrappedSegwit)
       = Inr \<lparr>bip32_public = 0x049d7cb2, bip32_private = 0x049d7878\<rparr>
   \<and> xpubToPubkey one_coin version_lib
        \<lparr>xpub = ''zpub'', pk_network = Mainnet, pk_type = Segwit, bip44ChangeIndex = 1,
         bip44AddressIndex = 5, pk_coin = ''bitcoin''\<rparr>
       = Inr [0x04b24746, 0x04b2430c, 1, 5]
   \<and> xprivToXPub one_coin version_lib
        \<lparr>xx_xpriv = ''zprv'', xx_network = Mainnet, xx_type = Segwit, xx_coin = ''bitcoin''\<rparr>
       = Inr ''z''
   \<and> mnemonicToXPriv one_coin version_lib
        \<lparr>mnemonic = ''test seed'', path = ''m/84/0/0'', mx_network = Mainnet, mx_type = Segwit,
         mx_coin = ''bitcoin''\<rparr>
       = Inr ''z''
   \<and> bip32NetworkFromCoin one_coin Testnet ''bitcoin'' Segwit
       = Inl (Error ''segwit xpub prefix is undefined'')
   \<and> xprivToXPub one_coin path_lib
        \<lparr>xx_xpriv = ''tprv'', xx_network = Testnet, xx_type = Segwit, xx_coin = ''bitcoin''\<rparr>
       = Inl (Error ''segwit xpub prefix is undefined'')
   \<and> mnemonicToXPriv one_coin path_lib
        \<lparr>mnemonic = ''test seed'', path = ''m/84/1/0'', mx_network = Testnet, mx_type = Segwit,
         mx_coin = ''bitcoin''\<rparr>
       = Inl (Error ''segwit xpub prefix is undefined'')"
proof -
  let ?coin = "\<lparr>mainnetConstants = btc_main, testnetConstants = legacy_only, segwit = True\<rparr>"
  let ?zpair = "\<lparr>bip32_public = 0x04b24746, bip32_private = 0x04b2430c\<rparr>"
  have coin: "one_coin ''bitcoin'' = Inr ?coin"
    by (simp add: one_coin_def)
  have none: "spec_registered_pair Segwit (prefixes_of ?coin Testnet) = None"
    by (simp add: spec_registered_pair_def prefixes_of_def legacy_only_def)
  have some: "spec_registered_pair Segwit (prefixes_of ?coin Mainnet) = Some ?zpair"
    by (simp add: spec_registered_pair_def prefixes_of_def btc_main_def)
  have wrapped: "spec_registered_pair WrappedSegwit (prefixes_of ?coin Mainnet)
                   = Some \<lparr>bip32_public = 0x049d7cb2, bip32_private = 0x049d7878\<rparr>"
    by (simp add: spec_registered_pair_def prefixes_of_def btc_main_def)
  have seed: "\<exists>root. fromSeed path_lib (mnemonicToSeedSync path_lib ''test seed'') = Inr root"
    by (simp add: path_lib_def)
  have a: "spec_registered_pair Segwit btc_main = Some ?zpair"
    by (simp add: spec_registered_pair_def btc_main_def)
  have b: "spec_registered_pair WrappedSegwit legacy_only = None"
    by (simp add: spec_registered_pair_def legacy_only_def)
  have u: "unsupported_purpose Segwit = Error ''segwit xpub prefix is undefined''"
    "unsupported_purpose WrappedSegwit = Error ''wrapped segwit xpub prefix is undefined''"
    by (simp_all add: unsupported_purpose_def)
  note pr = purpose_selects_registered_pair
  from pr [where purpose = Segwit and cp = btc_main and sw = True, THEN conjunct1] a
  have 1: "map_sum id net_bip32 (bip32NetworkFromCoinPrefix Segwit btc_main True) = Inr ?zpair"
    by simp
  from pr [where purpose = WrappedSegwit and cp = legacy_only and sw = True, THEN conjunct1] b u
  have 2: "map_sum id net_bip32 (bip32NetworkFromCoinPrefix WrappedSegwit legacy_only True)
       = Inl (Error ''wrapped segwit xpub prefix is undefined'')"
    by simp
  from pr [where purpose = Segwit and getCoinFromString = one_coin and c = "''bitcoin''"
      and n = Mainnet and coin = ?coin, THEN conjunct2, THEN conjunct1] coin some
  have 3: "map_sum id net_bip32 (bip32NetworkFromCoin one_coin Mainnet ''bitcoin'' Segwit)
       = Inr ?zpair"
    by simp
  from pr [where purpose = WrappedSegwit and getCoinFromString = one_coin and c = "''bitcoin''"
      and n = Mainnet and coin = ?coin, THEN conjunct2, THEN conjunct1] coin wrapped
  have 4: "map_sum id net_bip32 (bip32NetworkFromCoin one_coin Mainnet ''bitcoin'' WrappedSegwit)
       = Inr \<lparr>bip32_public = 0x049d7cb2, bip32_private = 0x049d7878\<rparr>"
    by simp
  from pr [where purpose = Segwit and getCoinFromString = one_coin and c = "''bitcoin''"
      and n = Mainnet and coin = ?coin and pair = ?zpair and lib = version_lib
      and k = "''zpub''" and ci = 1 and ai = 5 and m = "''test seed''" and pth = "''m/84/0/0''",
      THEN conjunct2, THEN conjunct2, THEN conjunct2] coin some
  obtain net where net: "net_bip32 net = ?zpair"
    and pk: "xpubToPubkey one_coin version_lib
        \<lparr>xpub = ''zpub'', pk_network = Mainnet, pk_type = Segwit, bip44ChangeIndex = 1,
         bip44AddressIndex = 5, pk_coin = ''bitcoin''\<rparr>
       = (case fromBase58 version_lib ''zpub'' net of
                  Inl e \<Rightarrow> Inl e
                | Inr node \<Rightarrow>
                    (case derive version_lib node 1 of
                       Inl e \<Rightarrow> Inl e
                     | Inr change \<Rightarrow>
                         (case derive version_lib change 5 of
                            Inl e \<Rightarrow> Inl e
                          | Inr leaf \<Rightarrow> Inr (publicKey version_lib leaf))))"
    and mx: "mnemonicToXPriv one_coin version_lib
        \<lparr>mnemonic = ''test seed'', path = ''m/84/0/0'', mx_network = Mainnet, mx_type = Segwit,
         mx_coin = ''bitcoin''\<rparr>
       = (case fromSeed version_lib (mnemonicToSeedSync version_lib ''test seed'') of
                  Inl e \<Rightarrow> Inl e
                | Inr root \<Rightarrow>
                    (case derivePath version_lib (setNetwork version_lib root net) ''m/84/0/0'' of
                       Inl e \<Rightarrow> Inl e
                     | Inr child \<Rightarrow> Inr (toBase58 version_lib child)))"
    by auto
  from pr [where purpose = Segwit and getCoinFromString = one_coin and c = "''bitcoin''"
      and n = Mainnet and coin = ?coin and pair = ?zpair and lib = version_lib
      and k = "''zprv''" and ci = 0 and ai = 0 and m = "''test seed''" and pth = "''m/84/0/0''",
      THEN conjunct2, THEN conjunct2, THEN conjunct2] coin some
  obtain net' where net': "net_bip32 net' = ?zpair"
    and xx: "xprivToXPub one_coin version_lib
        \<lparr>xx_xpriv = ''zprv'', xx_network = Mainnet, xx_type = Segwit, xx_coin = ''bitcoin''\<rparr>
       = (case fromBase58 version_lib ''zprv'' net' of
                  Inl e \<Rightarrow> Inl e
                | Inr node \<Rightarrow> Inr (toBase58 version_lib (neutered version_lib node)))"
    by auto
  from pk net have 5: "xpubToPubkey one_coin version_lib
        \<lparr>xpub = ''zpub'', pk_network = Mainnet, pk_type = Segwit, bip44ChangeIndex = 1,
         bip44AddressIndex = 5, pk_coin = ''bitcoin''\<rparr>
       = Inr [0x04b24746, 0x04b2430c, 1, 5]"
    by (simp add: version_lib_def path_lib_def)
  from xx net' have 6: "xprivToXPub one_coin version_lib
        \<lparr>xx_xpriv = ''zprv'', xx_network = Mainnet, xx_type = Segwit, xx_coin = ''bitcoin''\<rparr>
       = Inr ''z''"
    by (simp add: version_lib_def path_lib_def)
  from mx net have 7: "mnemonicToXPriv one_coin version_lib
        \<lparr>mnemonic = ''test seed'', path = ''m/84/0/0'', mx_network = Mainnet, mx_type = Segwit,
         mx_coin = ''bitcoin''\<rparr>
       = Inr ''z''"
    by (simp add: version_lib_def path_lib_def)
  from pr [where purpose = Segwit and getCoinFromString = one_coin
      and c = "''bitcoin''" and n = Testnet and lib = path_lib and k = "''tprv''"
      and m = "''test seed''" and pth = "''m/84/1/0''" and coin = ?coin,
      THEN conjunct2, THEN conjunct2, THEN conjunct1] coin none seed u
  have 8: "bip32NetworkFromCoin one_coin Testnet ''bitcoin'' Segwit
       = Inl (Error ''segwit xpub prefix is undefined'')"
    and 9: "xprivToXPub one_coin path_lib
        \<lparr>xx_xpriv = ''tprv'', xx_network = Testnet, xx_type = Segwit, xx_coin = ''bitcoin''\<rparr>
       = Inl (Error ''segwit xpub prefix is undefined'')"
    and 10: "mnemonicToXPriv one_coin path_lib
        \<lparr>mnemonic = ''test seed'', path = ''m/84/1/0'', mx_network = Testnet, mx_type = Segwit,
         mx_coin = ''bitcoin''\<rparr>
       = Inl (Error ''segwit xpub prefix is undefined'')"
    by auto
  from 1 2 3 4 5 6 7 8 9 10 show ?thesis by (intro conjI)
qed

section \<open>Properties of the address translation\<close>

lemma guessAddressTypeFromAddress_first:
  "guessAddressTypeFromAddress lib a net None =
     (case spec_first_decoding (spec_decoders lib net (\<lambda>_. True)) a of
        Some t \<Rightarrow> Inr t
      | None \<Rightarrow> Inl (Error (''Could not determine address type of '' @ a)))"
  by (simp add: guessAddressTypeFromAddress_def spec_decoders_def spec_payment_decoders_def
      split: sum.splits cashaddrTypeEnum.splits)

lemma spec_first_decoding_table:
  "alt_table_ok a \<Longrightarrow>
     spec_first_decoding (spec_decoders lib net alt_table_ok) a =
       spec_first_decoding (spec_decoders lib net (\<lambda>_. True)) a"
  by (simp add: spec_decoders_def spec_payment_decoders_def split: sum.splits)

lemma spec_first_decoding_found:
  "spec_first_decoding (spec_decoders lib net alt_table_ok) a = Some g \<Longrightarrow>
     spec_first_decoding (spec_decoders lib net (\<lambda>_. True)) a = Some g"
  by (auto simp: spec_decoders_def spec_payment_decoders_def split: sum.splits if_splits)

lemma one_coin_networks:
  "bip32NetworkFromCoin one_coin Mainnet ''bitcoin'' Legacy = Inr btc_network"
  "bip32NetworkFromCoin one_coin Testnet ''bitcoin'' Legacy = Inr tbtc_network"
  by (simp_all add: bip32NetworkFromCoin_def bip32NetworkFromCoinPrefix_def one_coin_def
      btc_main_def legacy_only_def btc_network_def tbtc_network_def)

lemma addressToScriptPubkey_guess:
  assumes net: "bip32NetworkFromCoin coins n c Legacy = Inr net"
  shows "addressToScriptPubkey coins lib
          \<lparr>a2s_address = a, a2s_network = n, a2s_addressType = None, a2s_coin = c\<rparr> =
        (case spec_first_decoding (spec_decoders lib net (\<lambda>_. True)) a of
           Some g \<Rightarrow>
             addressToScriptPubkey coins lib
               \<lparr>a2s_address = a, a2s_network = n, a2s_addressType = Some g, a2s_coin = c\<rparr>
         | None \<Rightarrow> Inl (Error (''Could not determine address type of '' @ a)))"
proof -
  have some: "guessAddressTypeFromAddress lib a net (Some g) = Inr g" for g
    by (simp add: guessAddressTypeFromAddress_def)
  show ?thesis
    by (cases "spec_first_decoding (spec_decoders lib net (\<lambda>_. True)) a")
      (simp_all add: addressToScriptPubkey_def net guessAddressTypeFromAddress_first some
        cong: sum.case_cong AddressTypeEnum.case_cong)
qed

text \<open>
  The order of the decoders. With the address type omitted,
  \<open>guessAddressTypeFromAddress\<close> returns the type of the first decoder that decodes the
  address, in the order pubkeyhash, scripthash, witness-scripthash, witness-pubkeyhash,
  cashaddr, where the cashaddr decoder is given every address; it throws the error that
  names the address when none decodes it, and with an address type given it returns
  that type. For an address that passes the test of the specification this is the first
  decoding of the specification, and whatever type the specification finds, the code
  returns. \<^verbatim>\<open>addressToScriptPubkey\<close> without an address type, once the network of the
  coin is found, throws that error when no decoder succeeds and otherwise does what it
  does for the guessed type.
\<close>

lemma guessAddressTypeFromAddress_order:
  "guessAddressTypeFromAddress lib a net None =
     (case spec_first_decoding (spec_decoders lib net (\<lambda>_. True)) a of
        Some t \<Rightarrow> Inr t
      | None \<Rightarrow> Inl (Error (''Could not determine address type of '' @ a)))
   \<and> guessAddressTypeFromAddress lib a net (Some t) = Inr t
   \<and> (alt_table_ok a \<longrightarrow>
        guessAddressTypeFromAddress lib a net None =
          (case spec_first_decoding (spec_decoders lib net alt_table_ok) a of
             Some t \<Rightarrow> Inr t
           | None \<Rightarrow> Inl (Error (''Could not determine address type of '' @ a))))
   \<and> (spec_first_decoding (spec_decoders lib net alt_table_ok) a = Some g \<longrightarrow>
        guessAddressTypeFromAddress lib a net None = Inr g)
   \<and> (bip32NetworkFromCoin coins n c Legacy = Inr net \<longrightarrow>
        addressToScriptPubkey coins lib
          \<lparr>a2s_address = a, a2s_network = n, a2s_addressType = None, a2s_coin = c\<rparr> =
        (case spec_first_decoding (spec_decoders lib net (\<lambda>_. True)) a of
           Some g \<Rightarrow>
             addressToScriptPubkey coins lib
               \<lparr>a2s_address = a, a2s_network = n, a2s_addressType = Some g, a2s_coin = c\<rparr>
         | None \<Rightarrow> Inl (Error (''Could not determine address type of '' @ a))))"
proof (intro conjI impI)
  show "guessAddressTypeFromAddress lib a net None =
     (case spec_first_decoding (spec_decoders lib net (\<lambda>_. True)) a of
        Some t \<Rightarrow> Inr t
      | None \<Rightarrow> Inl (Error (''Could not determine address type of '' @ a)))"
    by (rule guessAddressTypeFromAddress_first)
  show "guessAddressTypeFromAddress lib a net (Some t) = Inr t"
    by (simp add: guessAddressTypeFromAddress_def)
  show "guessAddressTypeFromAddress lib a net None =
          (case spec_first_decoding (spec_decoders lib net alt_table_ok) a of
             Some t \<Rightarrow> Inr t
           | None \<Rightarrow> Inl (Error (''Could not determine address type of '' @ a)))"
    if "alt_table_ok a"
    unfolding spec_first_decoding_table [of alt_table_ok, OF that]
    by (rule guessAddressTypeFromAddress_first)
  show "guessAddressTypeFromAddress lib a net None = Inr g"
    if "spec_first_decoding (spec_decoders lib net alt_table_ok) a = Some g"
    using spec_first_decoding_found [OF that] by (simp add: guessAddressTypeFromAddress_first)
next
  assume "bip32NetworkFromCoin coins n c Legacy = Inr net"
  then show "addressToScriptPubkey coins lib
          \<lparr>a2s_address = a, a2s_network = n, a2s_addressType = None, a2s_coin = c\<rparr> =
        (case spec_first_decoding (spec_decoders lib net (\<lambda>_. True)) a of
           Some g \<Rightarrow>
             addressToScriptPubkey coins lib
               \<lparr>a2s_address = a, a2s_network = n, a2s_addressType = Some g, a2s_coin = c\<rparr>
         | None \<Rightarrow> Inl (Error (''Could not determine address type of '' @ a)))"
    by (rule addressToScriptPubkey_guess)
qed

lemma guessAddressTypeFromAddress_order_examples:
  "guessAddressTypeFromAddress witness_only_lib ''anything'' btc_network None = Inr p2wsh
   \<and> spec_alt_prefix_matches (Some ''bitcoincash'') ''bitcoincash:p0102''
   \<and> spec_first_decoding
       (spec_decoders tagged_lib btc_network (spec_alt_prefix_matches (Some ''bitcoincash'')))
       ''bitcoincash:p0102'' = Some cashaddrP2SH
   \<and> guessAddressTypeFromAddress tagged_lib ''bitcoincash:p0102'' btc_network None
       = Inr cashaddrP2SH
   \<and> addressToScriptPubkey one_coin tagged_lib
       \<lparr>a2s_address = ''q0102'', a2s_network = Mainnet, a2s_addressType = None,
        a2s_coin = ''bitcoin''\<rparr> = Inr ''00140102''
   \<and> addressToScriptPubkey one_coin tagged_lib
       \<lparr>a2s_address = ''x0102'', a2s_network = Mainnet, a2s_addressType = None,
        a2s_coin = ''bitcoin''\<rparr> = Inl (Error ''Could not determine address type of x0102'')"
proof -
  have 1: "spec_first_decoding (spec_decoders witness_only_lib btc_network (\<lambda>_. True))
             ''anything'' = Some p2wsh"
    by (simp add: spec_decoders_def spec_payment_decoders_def witness_only_lib_def)
  have ok: "spec_alt_prefix_matches (Some ''bitcoincash'') ''bitcoincash:p0102''"
    by (simp add: spec_alt_prefix_matches_def)
  have 2: "spec_first_decoding
       (spec_decoders tagged_lib btc_network (spec_alt_prefix_matches (Some ''bitcoincash'')))
       ''bitcoincash:p0102'' = Some cashaddrP2SH"
    by (simp add: spec_decoders_def spec_payment_decoders_def tagged_lib_def tagged_payments_def strip_prefix_def
        tagged_cashAddressToHash_def cash_prefix_def spec_alt_prefix_matches_def)
  have 3: "spec_first_decoding (spec_decoders tagged_lib btc_network (\<lambda>_. True)) ''q0102''
             = Some p2wpkh"
    by (simp add: spec_decoders_def spec_payment_decoders_def tagged_lib_def tagged_payments_def strip_prefix_def)
  have 4: "spec_first_decoding (spec_decoders tagged_lib btc_network (\<lambda>_. True)) ''x0102''
             = None"
    by (simp add: spec_decoders_def spec_payment_decoders_def tagged_lib_def tagged_payments_def strip_prefix_def
        tagged_cashAddressToHash_def cash_prefix_def)
  have 5: "addressToScriptPubkey one_coin tagged_lib
       \<lparr>a2s_address = ''q0102'', a2s_network = Mainnet, a2s_addressType = Some p2wpkh,
        a2s_coin = ''bitcoin''\<rparr> = Inr ''00140102''"
    by (simp add: addressToScriptPubkey_def one_coin_networks guessAddressTypeFromAddress_def
        tagged_lib_def tagged_payments_def strip_prefix_def tagged_payment_def)
  note pr = guessAddressTypeFromAddress_order
  from pr [where lib = witness_only_lib and a = "''anything''" and net = btc_network,
      THEN conjunct1] 1
  have a: "guessAddressTypeFromAddress witness_only_lib ''anything'' btc_network None
             = Inr p2wsh"
    by simp
  from pr [where lib = tagged_lib and a = "''bitcoincash:p0102''" and net = btc_network
      and alt_table_ok = "spec_alt_prefix_matches (Some ''bitcoincash'')",
      THEN conjunct2, THEN conjunct2, THEN conjunct1, rule_format, OF ok] 2
  have b: "guessAddressTypeFromAddress tagged_lib ''bitcoincash:p0102'' btc_network None
             = Inr cashaddrP2SH"
    by simp
  from pr [where lib = tagged_lib and a = "''bitcoincash:p0102''" and net = btc_network
      and alt_table_ok = "spec_alt_prefix_matches (Some ''bitcoincash'')"
      and g = cashaddrP2SH,
      THEN conjunct2, THEN conjunct2, THEN conjunct2, THEN conjunct1, rule_format, OF 2]
  have b': "guessAddressTypeFromAddress tagged_lib ''bitcoincash:p0102'' btc_network None
             = Inr cashaddrP2SH" .
  from pr [where lib = tagged_lib and a = "''q0102''" and net = btc_network
      and coins = one_coin and n = Mainnet and c = "''bitcoin''",
      THEN conjunct2, THEN conjunct2, THEN conjunct2, THEN conjunct2, rule_format,
      OF one_coin_networks(1)] 3 5
  have c: "addressToScriptPubkey one_coin tagged_lib
       \<lparr>a2s_address = ''q0102'', a2s_network = Mainnet, a2s_addressType = None,
        a2s_coin = ''bitcoin''\<rparr> = Inr ''00140102''"
    by simp
  from pr [where lib = tagged_lib and a = "''x0102''" and net = btc_network
      and coins = one_coin and n = Mainnet and c = "''bitcoin''",
      THEN conjunct2, THEN conjunct2, THEN conjunct2, THEN conjunct2, rule_format,
      OF one_coin_networks(1)] 4
  have d: "addressToScriptPubkey one_coin tagged_lib
       \<lparr>a2s_address = ''x0102'', a2s_network = Mainnet, a2s_addressType = None,
        a2s_coin = ''bitcoin''\<rparr> = Inl (Error ''Could not determine address type of x0102'')"
    by simp
  from a ok 2 b' c d show ?thesis by (intro conjI)
qed

text \<open>
  C5: the last decoder does not decode against the tables of the coin. The first four
  decoders of \<open>guessAddressTypeFromAddress\<close> are given the network of the coin; when
  they fail, the result is that of \<open>cashAddressToHash\<close> on the address alone, which is
  given neither the coin nor the network, so an address in the alternate encoding is
  typed the same for every coin and on both networks. For a coin that registers no
  alternate-encoding prefix, no decoder of the specification decodes the address
  \<^verbatim>\<open>bitcoincash:q0102\<close>, and the code types it as a cashaddr address; for a coin and
  network with the prefix \<^verbatim>\<open>bitcoincash\<close>, no decoder of the specification decodes the
  address \<^verbatim>\<open>bchtest:q0102\<close>, and the code types it as a cashaddr address, so that
  \<^verbatim>\<open>addressToScriptPubkey\<close> returns a locking script for it on mainnet where the claim
  has it fail with the error of an unrecognised address.
\<close>

theorem guessAddressTypeFromAddress_cashaddr_unchecked:
  "guessAddressTypeFromAddress lib a net None =
     (case spec_first_decoding (spec_payment_decoders lib net) a of
        Some t \<Rightarrow> Inr t
      | None \<Rightarrow>
          (case cashAddressToHash lib a of
             Inr info \<Rightarrow>
               Inr (case info_type info of
                      pubkeyhash \<Rightarrow> cashaddrP2PKH
                    | scripthash \<Rightarrow> cashaddrP2SH)
           | Inl _ \<Rightarrow> Inl (Error (''Could not determine address type of '' @ a))))
   \<and> spec_first_decoding (spec_decoders tagged_lib btc_network (spec_alt_prefix_matches None))
       ''bitcoincash:q0102'' = None
   \<and> guessAddressTypeFromAddress tagged_lib ''bitcoincash:q0102'' btc_network None
       = Inr cashaddrP2PKH
   \<and> spec_first_decoding
       (spec_decoders tagged_lib btc_network (spec_alt_prefix_matches (Some ''bitcoincash'')))
       ''bchtest:q0102'' = None
   \<and> guessAddressTypeFromAddress tagged_lib ''bchtest:q0102'' btc_network None
       = Inr cashaddrP2PKH
   \<and> guessAddressTypeFromAddress tagged_lib ''bchtest:q0102'' tbtc_network None
       = Inr cashaddrP2PKH
   \<and> addressToScriptPubkey one_coin tagged_lib
       \<lparr>a2s_address = ''bchtest:q0102'', a2s_network = Mainnet, a2s_addressType = None,
        a2s_coin = ''bitcoin''\<rparr> = Inr ''76a914010288ac''
   \<and> addressToScriptPubkey one_coin tagged_lib
       \<lparr>a2s_address = ''x0102'', a2s_network = Mainnet, a2s_addressType = None,
        a2s_coin = ''bitcoin''\<rparr> = Inl (Error ''Could not determine address type of x0102'')"
proof -
  have 1: "guessAddressTypeFromAddress lib a net None =
     (case spec_first_decoding (spec_payment_decoders lib net) a of
        Some t \<Rightarrow> Inr t
      | None \<Rightarrow>
          (case cashAddressToHash lib a of
             Inr info \<Rightarrow>
               Inr (case info_type info of
                      pubkeyhash \<Rightarrow> cashaddrP2PKH
                    | scripthash \<Rightarrow> cashaddrP2SH)
           | Inl _ \<Rightarrow> Inl (Error (''Could not determine address type of '' @ a))))"
    by (simp add: guessAddressTypeFromAddress_def spec_payment_decoders_def
        split: sum.splits cashaddrTypeEnum.splits)
  have 2: "spec_first_decoding
       (spec_decoders tagged_lib btc_network (spec_alt_prefix_matches None))
       ''bitcoincash:q0102'' = None"
    "spec_first_decoding
       (spec_decoders tagged_lib btc_network (spec_alt_prefix_matches (Some ''bitcoincash'')))
       ''bchtest:q0102'' = None"
    by (simp_all add: spec_decoders_def spec_payment_decoders_def spec_alt_prefix_matches_def
        tagged_lib_def tagged_payments_def strip_prefix_def)
  have 3: "guessAddressTypeFromAddress tagged_lib ''bitcoincash:q0102'' btc_network None
       = Inr cashaddrP2PKH"
    "guessAddressTypeFromAddress tagged_lib ''bchtest:q0102'' btc_network None
       = Inr cashaddrP2PKH"
    "guessAddressTypeFromAddress tagged_lib ''bchtest:q0102'' tbtc_network None
       = Inr cashaddrP2PKH"
    by (simp_all add: guessAddressTypeFromAddress_def tagged_lib_def tagged_payments_def
        strip_prefix_def tagged_cashAddressToHash_def cash_prefix_def)
  have 4: "addressToScriptPubkey one_coin tagged_lib
       \<lparr>a2s_address = ''bchtest:q0102'', a2s_network = Mainnet, a2s_addressType = None,
        a2s_coin = ''bitcoin''\<rparr> = Inr ''76a914010288ac''"
    by (simp add: guessAddressTypeFromAddress_def addressToScriptPubkey_def
        scriptHashToScriptPubkey_def one_coin_networks tagged_lib_def tagged_payments_def
        tagged_payment_def strip_prefix_def tagged_cashAddressToHash_def cash_prefix_def)
  have 5: "addressToScriptPubkey one_coin tagged_lib
       \<lparr>a2s_address = ''x0102'', a2s_network = Mainnet, a2s_addressType = None,
        a2s_coin = ''bitcoin''\<rparr> = Inl (Error ''Could not determine address type of x0102'')"
    by (simp add: guessAddressTypeFromAddress_def addressToScriptPubkey_def
        one_coin_networks tagged_lib_def tagged_payments_def
        strip_prefix_def tagged_cashAddressToHash_def cash_prefix_def)
  from 1 2 3 4 5 show ?thesis by (intro conjI)
qed

text \<open>
  An address type whose payment creator decodes an address to a locking script and
  encodes the script as the address is converted both ways by the code; so is a
  cashaddr type whose codec and payment creator do.
\<close>

lemma roundtrip_payment:
  assumes net: "bip32NetworkFromCoin coins n c Legacy = Inr net"
    and f: "payments lib creator (Address a) net = Inr p1" "pay_output p1 = Some spk"
       "payments lib creator (Output spk) net = Inr p2" "pay_address p2 = Some a"
    and t: "(t, creator) \<in> {(p2pkh, P2PKH), (p2sh, P2SH), (p2wpkhp2sh, P2SH), (p2wpkh, P2WPKH),
              (p2wsh, P2WSH)}"
  shows "addressToScriptPubkey coins lib
           \<lparr>a2s_address = a, a2s_network = n, a2s_addressType = Some t, a2s_coin = c\<rparr> = Inr spk"
    and "scriptPubkeyToAddress coins lib
           \<lparr>s2a_scriptPubkey = spk, s2a_addressType = t, s2a_network = n, s2a_coin = c\<rparr> = Inr a"
proof -
  from t f show "addressToScriptPubkey coins lib
           \<lparr>a2s_address = a, a2s_network = n, a2s_addressType = Some t, a2s_coin = c\<rparr> = Inr spk"
    by (auto simp: addressToScriptPubkey_def net guessAddressTypeFromAddress_def)
  from t f show "scriptPubkeyToAddress coins lib
           \<lparr>s2a_scriptPubkey = spk, s2a_addressType = t, s2a_network = n, s2a_coin = c\<rparr> = Inr a"
    by (auto simp: scriptPubkeyToAddress_def net)
qed

lemma roundtrip_cashaddr:
  assumes net: "bip32NetworkFromCoin coins n c Legacy = Inr net"
    and f: "cashAddressToHash lib a = Inr info"
       "payments lib creator (Hash (info_scriptHash info)) net = Inr p1" "pay_output p1 = Some spk"
       "payments lib creator (Output spk) net = Inr p2" "pay_hash p2 = Some h"
       "hashToCashAddress lib h tag (if n = Testnet then prefix_testnet else prefix_mainnet) = Inr a"
    and t: "(t, u, creator, tag) \<in> {(cashaddrP2PKH, p2pkh, P2PKH, pubkeyhash),
              (cashaddrP2SH, p2sh, P2SH, scripthash)}"
  shows "addressToScriptPubkey coins lib
           \<lparr>a2s_address = a, a2s_network = n, a2s_addressType = Some t, a2s_coin = c\<rparr> = Inr spk"
    and "scriptPubkeyToAddress coins lib
           \<lparr>s2a_scriptPubkey = spk, s2a_addressType = t, s2a_network = n, s2a_coin = c\<rparr> = Inr a"
proof -
  from t f have h2s: "scriptHashToScriptPubkey coins lib
      \<lparr>h2s_scriptHash = info_scriptHash info, h2s_addressType = u, h2s_network = n,
       h2s_coin = c\<rparr> = Inr spk"
    by (auto simp: scriptHashToScriptPubkey_def net)
  from t f have s2h: "scriptPubkeyToScriptHash coins lib
      \<lparr>s2h_scriptPubkey = spk, s2h_addressType = u, s2h_network = n, s2h_coin = c\<rparr> = Inr h"
    by (auto simp: scriptPubkeyToScriptHash_def net)
  from t f h2s show "addressToScriptPubkey coins lib
           \<lparr>a2s_address = a, a2s_network = n, a2s_addressType = Some t, a2s_coin = c\<rparr> = Inr spk"
    by (auto simp: addressToScriptPubkey_def net guessAddressTypeFromAddress_def)
  from t f s2h show "scriptPubkeyToAddress coins lib
           \<lparr>s2a_scriptPubkey = spk, s2a_addressType = t, s2a_network = n, s2a_coin = c\<rparr> = Inr a"
    by (auto simp: scriptPubkeyToAddress_def net)
qed

text \<open>
  C6: the round trip is not made for the address type \<^verbatim>\<open>p2wshp2sh\<close>, which the
  enumeration of the supported address types lists. Whatever the address, the locking
  script, the coin and the libraries, \<^verbatim>\<open>addressToScriptPubkey\<close> and
  \<^verbatim>\<open>scriptPubkeyToAddress\<close> with that type return nothing: they throw ``invalid address
  type'' once the network of the coin is found. The other type of a P2SH-wrapped
  witness script, \<^verbatim>\<open>p2wpkhp2sh\<close>, is converted as \<^verbatim>\<open>p2sh\<close> is. So an address that is
  converted to a locking script and back as a \<^verbatim>\<open>p2sh\<close> address is not converted as a
  \<^verbatim>\<open>p2wshp2sh\<close> address, where the claim has the round trip give the address.
\<close>

theorem p2wshp2sh_not_converted:
  "addressToScriptPubkey coins lib
      \<lparr>a2s_address = a, a2s_network = n, a2s_addressType = Some p2wshp2sh, a2s_coin = c\<rparr>
     = (case bip32NetworkFromCoin coins n c Legacy of
          Inl e \<Rightarrow> Inl e
        | Inr _ \<Rightarrow> Inl (Error ''invalid address type in address to script pubkey''))
   \<and> scriptPubkeyToAddress coins lib
        \<lparr>s2a_scriptPubkey = spk, s2a_addressType = p2wshp2sh, s2a_network = n, s2a_coin = c\<rparr>
       = (case bip32NetworkFromCoin coins n c Legacy of
            Inl e \<Rightarrow> Inl e
          | Inr _ \<Rightarrow> Inl (Error ''invalid address type in address to script pubkey''))
   \<and> addressToScriptPubkey coins lib
        \<lparr>a2s_address = a, a2s_network = n, a2s_addressType = Some p2wpkhp2sh, a2s_coin = c\<rparr>
       = addressToScriptPubkey coins lib
           \<lparr>a2s_address = a, a2s_network = n, a2s_addressType = Some p2sh, a2s_coin = c\<rparr>
   \<and> scriptPubkeyToAddress coins lib
        \<lparr>s2a_scriptPubkey = spk, s2a_addressType = p2wpkhp2sh, s2a_network = n, s2a_coin = c\<rparr>
       = scriptPubkeyToAddress coins lib
           \<lparr>s2a_scriptPubkey = spk, s2a_addressType = p2sh, s2a_network = n, s2a_coin = c\<rparr>
   \<and> addressToScriptPubkey one_coin tagged_lib
        \<lparr>a2s_address = ''30102'', a2s_network = Mainnet, a2s_addressType = Some p2sh,
         a2s_coin = ''bitcoin''\<rparr> = Inr ''a914010287''
   \<and> scriptPubkeyToAddress one_coin tagged_lib
        \<lparr>s2a_scriptPubkey = ''a914010287'', s2a_addressType = p2sh, s2a_network = Mainnet,
         s2a_coin = ''bitcoin''\<rparr> = Inr ''30102''
   \<and> addressToScriptPubkey one_coin tagged_lib
        \<lparr>a2s_address = ''30102'', a2s_network = Mainnet, a2s_addressType = Some p2wshp2sh,
         a2s_coin = ''bitcoin''\<rparr>
       = Inl (Error ''invalid address type in address to script pubkey'')
   \<and> scriptPubkeyToAddress one_coin tagged_lib
        \<lparr>s2a_scriptPubkey = ''a914010287'', s2a_addressType = p2wshp2sh, s2a_network = Mainnet,
         s2a_coin = ''bitcoin''\<rparr>
       = Inl (Error ''invalid address type in address to script pubkey'')"
proof -
  have g: "guessAddressTypeFromAddress lib a net (Some t) = Inr t" for net t
    by (simp add: guessAddressTypeFromAddress_def)
  have 1: "addressToScriptPubkey coins lib
      \<lparr>a2s_address = a, a2s_network = n, a2s_addressType = Some p2wshp2sh, a2s_coin = c\<rparr>
     = (case bip32NetworkFromCoin coins n c Legacy of
          Inl e \<Rightarrow> Inl e
        | Inr _ \<Rightarrow> Inl (Error ''invalid address type in address to script pubkey''))"
    by (cases "bip32NetworkFromCoin coins n c Legacy")
      (simp_all add: addressToScriptPubkey_def g)
  have 2: "scriptPubkeyToAddress coins lib
        \<lparr>s2a_scriptPubkey = spk, s2a_addressType = p2wshp2sh, s2a_network = n, s2a_coin = c\<rparr>
       = (case bip32NetworkFromCoin coins n c Legacy of
            Inl e \<Rightarrow> Inl e
          | Inr _ \<Rightarrow> Inl (Error ''invalid address type in address to script pubkey''))"
    by (cases "bip32NetworkFromCoin coins n c Legacy")
      (simp_all add: scriptPubkeyToAddress_def)
  have 3: "addressToScriptPubkey coins lib
        \<lparr>a2s_address = a, a2s_network = n, a2s_addressType = Some p2wpkhp2sh, a2s_coin = c\<rparr>
       = addressToScriptPubkey coins lib
           \<lparr>a2s_address = a, a2s_network = n, a2s_addressType = Some p2sh, a2s_coin = c\<rparr>"
    by (cases "bip32NetworkFromCoin coins n c Legacy")
      (simp_all add: addressToScriptPubkey_def g)
  have 4: "scriptPubkeyToAddress coins lib
        \<lparr>s2a_scriptPubkey = spk, s2a_addressType = p2wpkhp2sh, s2a_network = n, s2a_coin = c\<rparr>
       = scriptPubkeyToAddress coins lib
           \<lparr>s2a_scriptPubkey = spk, s2a_addressType = p2sh, s2a_network = n, s2a_coin = c\<rparr>"
    by (cases "bip32NetworkFromCoin coins n c Legacy")
      (simp_all add: scriptPubkeyToAddress_def)
  have p: "payments tagged_lib P2SH (Address ''30102'') btc_network
             = Inr (tagged_payment P2SH ''0102'')"
    "payments tagged_lib P2SH (Output ''a914010287'') btc_network
             = Inr (tagged_payment P2SH ''0102'')"
    by (simp_all add: tagged_lib_def tagged_payments_def strip_prefix_def strip_suffix_def)
  have q: "pay_output (tagged_payment P2SH ''0102'') = Some ''a914010287''"
    "pay_address (tagged_payment P2SH ''0102'') = Some ''30102''"
    by (simp_all add: tagged_payment_def)
  note rt = roundtrip_payment [OF one_coin_networks(1) p(1) q(1) p(2) q(2), of p2sh]
  have 5: "addressToScriptPubkey one_coin tagged_lib
        \<lparr>a2s_address = ''30102'', a2s_network = Mainnet, a2s_addressType = Some p2sh,
         a2s_coin = ''bitcoin''\<rparr> = Inr ''a914010287''"
    using rt(1) by simp
  have 6: "scriptPubkeyToAddress one_coin tagged_lib
        \<lparr>s2a_scriptPubkey = ''a914010287'', s2a_addressType = p2sh, s2a_network = Mainnet,
         s2a_coin = ''bitcoin''\<rparr> = Inr ''30102''"
    using rt(2) by simp
  have 7: "addressToScriptPubkey one_coin tagged_lib
        \<lparr>a2s_address = ''30102'', a2s_network = Mainnet, a2s_addressType = Some p2wshp2sh,
         a2s_coin = ''bitcoin''\<rparr>
       = Inl (Error ''invalid address type in address to script pubkey'')"
    by (simp add: addressToScriptPubkey_def one_coin_networks guessAddressTypeFromAddress_def)
  have 8: "scriptPubkeyToAddress one_coin tagged_lib
        \<lparr>s2a_scriptPubkey = ''a914010287'', s2a_addressType = p2wshp2sh, s2a_network = Mainnet,
         s2a_coin = ''bitcoin''\<rparr>
       = Inl (Error ''invalid address type in address to script pubkey'')"
    by (simp add: scriptPubkeyToAddress_def one_coin_networks)
  from 1 2 3 4 5 6 7 8 show ?thesis by (intro conjI)
qed

section \<open>Properties of signTx\<close>

lemma signTx_loop_recorded:
  "signTx_loop recording_lib i keys p =
     Inr (p @ concat (map (\<lambda>(j, key). [SignInput j key, ValidateSignaturesOfInput j])
                       (enumerate i keys)))"
proof (induction keys arbitrary: i p)
  case Nil
  then show ?case by simp
next
  case (Cons key rest)
  have s: "fromPrivateKey recording_lib key = Inr key"
    "signInput recording_lib p i key = Inr (p @ [SignInput i key])"
    "validateSignaturesOfInput recording_lib (p @ [SignInput i key]) i
       = Inr (True, p @ [SignInput i key, ValidateSignaturesOfInput i])"
    by (simp_all add: recording_lib_def)
  show ?case
    using Cons.IH [of "Suc i" "p @ [SignInput i key, ValidateSignaturesOfInput i]"]
    by (simp add: s)
qed

lemma signTx_recorded:
  "signTx recording_lib \<lparr>privateKeys = keys, signTx_tx = t\<rparr> =
     Inr (concat (map (\<lambda>(j, key). [SignInput j key, ValidateSignaturesOfInput j])
                    (enumerate 0 keys))
          @ [FinalizeAllInputs, ExtractTransaction])"
proof -
  have "fromBase64 recording_lib t = Inr []" by (simp add: recording_lib_def)
  moreover have "finalizeAllInputs recording_lib p = Inr (p @ [FinalizeAllInputs])" for p
    by (simp add: recording_lib_def)
  moreover have "extractTransaction recording_lib p = Inr (p @ [ExtractTransaction])" for p
    by (simp add: recording_lib_def)
  moreover have "toHex recording_lib p = p" for p
    by (simp add: recording_lib_def)
  ultimately show ?thesis
    using signTx_loop_recorded [of 0 keys "[]"] by (simp add: signTx_def)
qed

lemma signTx_loop_calls:
  "signTx_loop lib i keys p = Inr p' \<Longrightarrow> m < length keys \<Longrightarrow>
     \<exists>q pair q' b q''. fromPrivateKey lib (keys ! m) = Inr pair \<and>
        signInput lib q (i + m) pair = Inr q' \<and>
        validateSignaturesOfInput lib q' (i + m) = Inr (b, q'')"
proof (induction keys arbitrary: i p m)
  case Nil
  then show ?case by simp
next
  case (Cons key rest)
  from Cons.prems(1) obtain pair p1 b p2 where
    k: "fromPrivateKey lib key = Inr pair"
    and s: "signInput lib p i pair = Inr p1"
    and v: "validateSignaturesOfInput lib p1 i = Inr (b, p2)"
    and l: "signTx_loop lib (Suc i) rest p2 = Inr p'"
    by (auto split: sum.splits)
  show ?case
  proof (cases m)
    case 0
    with k s v show ?thesis by auto
  next
    case (Suc m')
    with Cons.prems(2) have "m' < length rest" by simp
    from Cons.IH [OF l this] Suc show ?thesis by simp
  qed
qed

lemma signTx_loop_frame:
  assumes frame: "\<And>p i k p'. signInput lib p i k = Inr p' \<Longrightarrow>
            i < inputCount lib p \<and> inputCount lib p' = inputCount lib p \<and>
            (\<forall>j. j \<noteq> i \<longrightarrow> hasSignature lib p' j = hasSignature lib p j)"
    and reads: "\<And>p i b p'. validateSignaturesOfInput lib p i = Inr (b, p') \<Longrightarrow>
            inputCount lib p' = inputCount lib p \<and>
            (\<forall>j. hasSignature lib p' j = hasSignature lib p j)"
  shows "signTx_loop lib i keys p = Inr p' \<Longrightarrow>
           (keys \<noteq> [] \<longrightarrow> i + length keys \<le> inputCount lib p) \<and>
           inputCount lib p' = inputCount lib p \<and>
           (\<forall>j. j < i \<or> i + length keys \<le> j \<longrightarrow> hasSignature lib p' j = hasSignature lib p j)"
proof (induction keys arbitrary: i p)
  case Nil
  then show ?case by simp
next
  case (Cons key rest)
  from Cons.prems obtain pair p1 b p2 where
    s: "signInput lib p i pair = Inr p1"
    and v: "validateSignaturesOfInput lib p1 i = Inr (b, p2)"
    and l: "signTx_loop lib (Suc i) rest p2 = Inr p'"
    by (auto split: sum.splits)
  from frame [OF s] have f: "i < inputCount lib p" "inputCount lib p1 = inputCount lib p"
    "\<And>j. j \<noteq> i \<Longrightarrow> hasSignature lib p1 j = hasSignature lib p j"
    by auto
  from reads [OF v] have r: "inputCount lib p2 = inputCount lib p1"
    "\<And>j. hasSignature lib p2 j = hasSignature lib p1 j"
    by auto
  from Cons.IH [OF l] have ih: "rest \<noteq> [] \<Longrightarrow> Suc i + length rest \<le> inputCount lib p2"
    "inputCount lib p' = inputCount lib p2"
    "\<And>j. j < Suc i \<or> Suc i + length rest \<le> j \<Longrightarrow> hasSignature lib p' j = hasSignature lib p2 j"
    by auto
  have "i + length (key # rest) \<le> inputCount lib p"
    using f(1,2) r(1) ih(1) by (cases rest) auto
  moreover have "inputCount lib p' = inputCount lib p" using f(2) r(1) ih(2) by simp
  moreover have "hasSignature lib p' j = hasSignature lib p j"
    if "j < i \<or> i + length (key # rest) \<le> j" for j
    using that f(3) [of j] r(2) [of j] ih(3) [of j] by auto
  ultimately show ?case by simp
qed

lemma counting_lib_frame:
  "signInput counting_lib p i k = Inr p' \<Longrightarrow>
     i < inputCount counting_lib p \<and> inputCount counting_lib p' = inputCount counting_lib p \<and>
     (\<forall>j. j \<noteq> i \<longrightarrow> hasSignature counting_lib p' j = hasSignature counting_lib p j)"
  by (auto simp: counting_lib_def split: if_splits)

lemma counting_lib_reads:
  "validateSignaturesOfInput counting_lib p i = Inr (b, p') \<Longrightarrow>
     inputCount counting_lib p' = inputCount counting_lib p \<and>
     (\<forall>j. hasSignature counting_lib p' j = hasSignature counting_lib p j)"
  by (auto simp: counting_lib_def split: if_splits)

lemma counting_lib_finalize:
  "finalizeAllInputs counting_lib p = Inr p' \<Longrightarrow>
     (\<forall>j < inputCount counting_lib p. hasSignature counting_lib p j)"
  by (auto simp: counting_lib_def list_all_length split: if_splits)

lemma signTx_counting_examples:
  "signTx counting_lib \<lparr>privateKeys = [''4b'', ''5c''], signTx_tx = ''00''\<rparr> = Inr ''11''"
  "signTx counting_lib \<lparr>privateKeys = [''4b''], signTx_tx = ''01''\<rparr> = Inr ''11''"
  "signTx counting_lib \<lparr>privateKeys = [''4b''], signTx_tx = ''00''\<rparr> = Inl LibError"
  "signTx counting_lib \<lparr>privateKeys = [''4b'', ''5c'', ''6d''], signTx_tx = ''00''\<rparr> = Inl LibError"
  by (simp_all add: signTx_def counting_lib_def)

text \<open>
  C9, as the code has it. On the library that records the calls, the calls of \<^verbatim>\<open>signTx\<close>
  on the Psbt are, for each key in turn, \<^verbatim>\<open>signInput\<close> at the position of the key with
  that key and then \<^verbatim>\<open>validateSignaturesOfInput\<close> at that position, and after the last
  key \<^verbatim>\<open>finalizeAllInputs\<close> and \<^verbatim>\<open>extractTransaction\<close>. On every library, when \<^verbatim>\<open>signTx\<close>
  returns, for each position of a key the key pair of that key has been built, a
  \<^verbatim>\<open>signInput\<close> call at that position with that key pair has returned and a
  \<^verbatim>\<open>validateSignaturesOfInput\<close> call at that position on the Psbt it left has returned.
  For a library whose \<^verbatim>\<open>signInput\<close> throws for an index without an input and leaves the
  other inputs as they are, whose \<^verbatim>\<open>validateSignaturesOfInput\<close> changes neither the
  inputs nor their signatures, and whose \<^verbatim>\<open>finalizeAllInputs\<close> throws when an input
  carries no signature: when \<^verbatim>\<open>signTx\<close> returns, there are at most as many keys as
  inputs, and every input past the keys carried a signature before the call; so on a
  Psbt none of whose inputs carries a signature, \<^verbatim>\<open>signTx\<close> returns only when given
  exactly one key for each input.
\<close>

theorem signTx_positional:
  assumes "\<And>p i k p'. signInput lib p i k = Inr p' \<Longrightarrow>
            i < inputCount lib p \<and> inputCount lib p' = inputCount lib p \<and>
            (\<forall>j. j \<noteq> i \<longrightarrow> hasSignature lib p' j = hasSignature lib p j)"
    and "\<And>p i b p'. validateSignaturesOfInput lib p i = Inr (b, p') \<Longrightarrow>
            inputCount lib p' = inputCount lib p \<and>
            (\<forall>j. hasSignature lib p' j = hasSignature lib p j)"
    and "\<And>p p'. finalizeAllInputs lib p = Inr p' \<Longrightarrow>
            (\<forall>j < inputCount lib p. hasSignature lib p j)"
    and "fromBase64 lib t = Inr p0"
    and "signTx lib \<lparr>privateKeys = keys, signTx_tx = t\<rparr> = Inr h"
  shows "signTx recording_lib \<lparr>privateKeys = keys, signTx_tx = t\<rparr> =
           Inr (concat (map (\<lambda>(j, key). [SignInput j key, ValidateSignaturesOfInput j])
                          (enumerate 0 keys))
                @ [FinalizeAllInputs, ExtractTransaction])
         \<and> (\<forall>m < length keys.
              \<exists>q pair q' b q''. fromPrivateKey lib (keys ! m) = Inr pair \<and>
                 signInput lib q m pair = Inr q' \<and>
                 validateSignaturesOfInput lib q' m = Inr (b, q''))
         \<and> length keys \<le> inputCount lib p0
         \<and> (\<forall>j. length keys \<le> j \<and> j < inputCount lib p0 \<longrightarrow> hasSignature lib p0 j)
         \<and> ((\<forall>j < inputCount lib p0. \<not> hasSignature lib p0 j) \<longrightarrow>
              length keys = inputCount lib p0)"
proof -
  from assms(4,5) obtain p1 p2 where
    l: "signTx_loop lib 0 keys p0 = Inr p1" and f: "finalizeAllInputs lib p1 = Inr p2"
    by (auto simp: signTx_def split: sum.splits)
  from signTx_loop_frame [of lib, OF assms(1,2) l]
  have a: "keys \<noteq> [] \<Longrightarrow> length keys \<le> inputCount lib p0"
    and b: "inputCount lib p1 = inputCount lib p0"
    and c: "\<And>j. length keys \<le> j \<Longrightarrow> hasSignature lib p1 j = hasSignature lib p0 j"
    by auto
  from assms(3) [OF f] have d: "\<And>j. j < inputCount lib p1 \<Longrightarrow> hasSignature lib p1 j"
    by simp
  have 0: "\<forall>m < length keys.
              \<exists>q pair q' b q''. fromPrivateKey lib (keys ! m) = Inr pair \<and>
                 signInput lib q m pair = Inr q' \<and>
                 validateSignaturesOfInput lib q' m = Inr (b, q'')"
    using signTx_loop_calls [OF l] by simp
  have 1: "length keys \<le> inputCount lib p0" using a by (cases keys) auto
  have 2: "hasSignature lib p0 j" if "length keys \<le> j" "j < inputCount lib p0" for j
    using that b c [of j] d [of j] by simp
  have 3: "length keys = inputCount lib p0"
    if n: "\<forall>j < inputCount lib p0. \<not> hasSignature lib p0 j"
  proof (rule ccontr)
    assume "length keys \<noteq> inputCount lib p0"
    with 1 have "length keys < inputCount lib p0" by simp
    with 2 [of "length keys"] n show False by auto
  qed
  from signTx_recorded [of keys t] 0 1 2 3 show ?thesis by blast
qed

theorem signTx_positional_witness:
  "signTx counting_lib \<lparr>privateKeys = [''4b'', ''5c''], signTx_tx = ''00''\<rparr> = Inr ''11''
   \<and> signTx recording_lib \<lparr>privateKeys = [''4b'', ''5c''], signTx_tx = ''00''\<rparr> =
       Inr [SignInput 0 ''4b'', ValidateSignaturesOfInput 0,
            SignInput 1 ''5c'', ValidateSignaturesOfInput 1,
            FinalizeAllInputs, ExtractTransaction]
   \<and> length [''4b'', ''5c''] = inputCount counting_lib [0, 0]"
proof -
  have p: "fromBase64 counting_lib ''00'' = Inr [0, 0]"
    by (simp add: counting_lib_def)
  have n: "\<forall>j < inputCount counting_lib [0, 0]. \<not> hasSignature counting_lib [0, 0] j"
    by (simp add: counting_lib_def less_Suc_eq)
  have "signTx recording_lib \<lparr>privateKeys = [''4b'', ''5c''], signTx_tx = ''00''\<rparr> =
           Inr (concat (map (\<lambda>(j, key). [SignInput j key, ValidateSignaturesOfInput j])
                          (enumerate 0 [''4b'', ''5c'']))
                @ [FinalizeAllInputs, ExtractTransaction])
         \<and> (\<forall>m < length [''4b'', ''5c''].
              \<exists>q pair q' b q''. fromPrivateKey counting_lib ([''4b'', ''5c''] ! m) = Inr pair \<and>
                 signInput counting_lib q m pair = Inr q' \<and>
                 validateSignaturesOfInput counting_lib q' m = Inr (b, q''))
         \<and> length [''4b'', ''5c''] \<le> inputCount counting_lib [0, 0]
         \<and> (\<forall>j. length [''4b'', ''5c''] \<le> j \<and> j < inputCount counting_lib [0, 0] \<longrightarrow>
                hasSignature counting_lib [0, 0] j)
         \<and> ((\<forall>j < inputCount counting_lib [0, 0]. \<not> hasSignature counting_lib [0, 0] j) \<longrightarrow>
              length [''4b'', ''5c''] = inputCount counting_lib [0, 0])"
    by (rule signTx_positional [of counting_lib "''00''" "[0, 0]" "[''4b'', ''5c'']" "''11''"])
      (erule counting_lib_frame, erule counting_lib_reads, erule counting_lib_finalize, rule p,
        rule signTx_counting_examples(1))
  with n
  have "signTx recording_lib \<lparr>privateKeys = [''4b'', ''5c''], signTx_tx = ''00''\<rparr> =
           Inr (concat (map (\<lambda>(j, key). [SignInput j key, ValidateSignaturesOfInput j])
                          (enumerate 0 [''4b'', ''5c'']))
                @ [FinalizeAllInputs, ExtractTransaction])"
    and "length [''4b'', ''5c''] = inputCount counting_lib [0, 0]"
    by blast+
  with signTx_counting_examples(1) show ?thesis by simp
qed

text \<open>
  C9 as the specification states it fails: a Psbt with two inputs, the second of which
  carries a signature already, is signed with one key; the second input receives no
  signature from \<^verbatim>\<open>signTx\<close>, and \<^verbatim>\<open>signTx\<close> returns the transaction.
\<close>

theorem signTx_fewer_keys_counterexample:
  "fromBase64 counting_lib ''01'' = Inr [0, 1]
   \<and> inputCount counting_lib [0, 1] = 2
   \<and> length [''4b''] = 1
   \<and> signTx counting_lib \<lparr>privateKeys = [''4b''], signTx_tx = ''01''\<rparr> = Inr ''11''"
  by (simp add: signTx_def counting_lib_def)

section \<open>Properties of toEdgeTransaction\<close>

lemma replay_protection_format_path:
  "(case replay_protection_format env fetched of None \<Rightarrow> None | Some a \<Rightarrow> address_path a) =
     map_option (\<lambda>p. p\<lparr>format := spec_display_format env p\<rparr>)
       (case fetched of None \<Rightarrow> None | Some a \<Rightarrow> address_path a)"
  by (auto simp: replay_protection_format_def spec_display_format_def option.map_ident
      split: option.splits)

lemma receive_addresses_step:
  "receive_addresses env ptx acc (out # rest) =
     (case output_at env ptx out of
        None \<Rightarrow> Inl TypeError
      | Some output \<Rightarrow>
          (case fetchAddress env (out_scriptPubkey output) of
             Inl e \<Rightarrow> Inl e
           | Inr fetched \<Rightarrow>
               (case (case fetched of None \<Rightarrow> None | Some a \<Rightarrow> address_path a) of
                  None \<Rightarrow> receive_addresses env ptx acc rest
                | Some p \<Rightarrow>
                    (case walletTools_scriptPubkeyToAddress env (out_scriptPubkey output)
                            (spec_display_format env p) of
                       Inl e \<Rightarrow> Inl e
                     | Inr addrStr \<Rightarrow> receive_addresses env ptx (acc @ [addrStr]) rest))))"
proof (cases "output_at env ptx out")
  case None
  then show ?thesis by simp
next
  case (Some outp)
  show ?thesis
  proof (cases "fetchAddress env (out_scriptPubkey outp)")
    case (Inl e)
    with Some show ?thesis by simp
  next
    case (Inr fetched)
    from replay_protection_format_path [of env fetched] Some Inr show ?thesis
      by (auto split: option.splits)
  qed
qed

lemma receive_addresses_displayed:
  "receive_addresses env ptx acc outs = Inr res \<Longrightarrow>
     map Inr res =
       map Inr acc @
       map (\<lambda>(spk, p). walletTools_scriptPubkeyToAddress env spk (spec_display_format env p))
         (List.map_filter (spec_our_path env ptx) outs)"
proof (induction outs arbitrary: acc)
  case Nil
  then show ?case by (simp add: List.map_filter_simps)
next
  case (Cons out rest)
  from Cons.prems obtain outp fetched where
    o: "output_at env ptx out = Some outp"
    and f: "fetchAddress env (out_scriptPubkey outp) = Inr fetched"
    by (auto simp: receive_addresses_step simp del: receive_addresses.simps
        split: option.splits sum.splits)
  show ?case
  proof (cases "case fetched of None \<Rightarrow> None | Some a \<Rightarrow> address_path a")
    case None
    with o f have "spec_our_path env ptx out = None"
      by (auto simp: spec_our_path_def split: option.splits)
    moreover from None o f Cons.prems have "receive_addresses env ptx acc rest = Inr res"
      by (simp add: receive_addresses_step del: receive_addresses.simps)
    ultimately show ?thesis using Cons.IH [of acc] by (simp add: List.map_filter_simps)
  next
    case (Some p)
    with o f have sp: "spec_our_path env ptx out = Some (out_scriptPubkey outp, p)"
      by (auto simp: spec_our_path_def split: option.splits)
    from Some o f Cons.prems obtain addrStr where
      w: "walletTools_scriptPubkeyToAddress env (out_scriptPubkey outp)
            (spec_display_format env p) = Inr addrStr"
      and r: "receive_addresses env ptx (acc @ [addrStr]) rest = Inr res"
      by (auto simp: receive_addresses_step simp del: receive_addresses.simps split: sum.splits)
    from Cons.IH [OF r] show ?thesis by (simp add: List.map_filter_simps sp w)
  qed
qed

lemma feeRate_Inr:
  "feeRate env ptx = Inr r \<longleftrightarrow>
     (\<exists>t f. fromHex env (hex ptx) = Inr t \<and> new_BN env (fees ptx) = Inr f \<and>
            virtualSize env t \<noteq> 0 \<and>
            r = sgn f * (\<bar>f\<bar> div int (virtualSize env t)) \<and> \<bar>r\<bar> < 2 ^ 53)"
  by (auto simp: feeRate_def bn_div_def bn_toNumber_def Let_def split: sum.splits if_splits)

lemma demo_env_addresses:
  "receive_addresses demo_env stored_tx [] (ourOuts stored_tx)
     = Inr [''bip44:76a91401'', ''bip49:a91402'']"
  by (simp add: stored_tx_def demo_env_def output_at_def digit_value_def
      replay_protection_format_def)

lemma demo_env_edge:
  "toEdgeTransaction demo_env stored_tx =
     Inr \<lparr>currencyCode = ''BTC'', edge_txid = ''f1'', edge_blockHeight = 700000,
          edge_date = 1600000000, nativeAmount = ''4907'', networkFee = ''1000'',
          signedTx = ''0200000001'',
          ourReceiveAddresses = [''bip44:76a91401'', ''bip49:a91402''],
          feeRateUsed = Some \<lparr>satPerVByte = 200\<rparr>\<rparr>"
proof -
  have "feeRate demo_env stored_tx = Inr 200"
    by (simp add: feeRate_def stored_tx_def demo_env_def digit_value_def bn_div_def
        bn_toNumber_def)
  then have "feeRes demo_env stored_tx = Some \<lparr>satPerVByte = 200\<rparr>"
    by (simp add: feeRes_def)
  then show ?thesis
    by (simp add: toEdgeTransaction_def demo_env_addresses)
      (simp add: stored_tx_def demo_env_def)
qed

text \<open>
  C7. When \<^verbatim>\<open>toEdgeTransaction\<close> returns, its receive addresses are, in the order of
  \<^verbatim>\<open>ourOuts\<close>, the addresses that the wallet tools give for the locking script of each
  output of ours whose address has a path, in the format bip49 when the path matches
  the replay-protection template of the coin and in the format recorded on the path
  when it does not (or when the coin has no such template).
\<close>

theorem toEdgeTransaction_replay_protection_format:
  assumes "toEdgeTransaction env ptx = Inr r"
  shows "map Inr (ourReceiveAddresses r) =
           map (\<lambda>(spk, p). walletTools_scriptPubkeyToAddress env spk (spec_display_format env p))
             (List.map_filter (spec_our_path env ptx) (ourOuts ptx))"
proof -
  from assms obtain addresses where
    a: "receive_addresses env ptx [] (ourOuts ptx) = Inr addresses"
    and r: "ourReceiveAddresses r = addresses"
    by (auto simp: toEdgeTransaction_def split: sum.splits)
  from receive_addresses_displayed [OF a] r show ?thesis by simp
qed

theorem toEdgeTransaction_replay_protection_format_witness:
  "toEdgeTransaction demo_env stored_tx =
     Inr \<lparr>currencyCode = ''BTC'', edge_txid = ''f1'', edge_blockHeight = 700000,
          edge_date = 1600000000, nativeAmount = ''4907'', networkFee = ''1000'',
          signedTx = ''0200000001'',
          ourReceiveAddresses = [''bip44:76a91401'', ''bip49:a91402''],
          feeRateUsed = Some \<lparr>satPerVByte = 200\<rparr>\<rparr>
   \<and> List.map_filter (spec_our_path demo_env stored_tx) (ourOuts stored_tx) =
       [(''76a91401'', \<lparr>format = ''bip44'', changeIndex = 0, addressIndex = 5\<rparr>),
        (''a91402'', \<lparr>format = ''bip44'', changeIndex = 2, addressIndex = 0\<rparr>)]
   \<and> spec_display_format demo_env \<lparr>format = ''bip44'', changeIndex = 0, addressIndex = 5\<rparr>
       = ''bip44''
   \<and> spec_display_format demo_env \<lparr>format = ''bip44'', changeIndex = 2, addressIndex = 0\<rparr>
       = ''bip49''
   \<and> map (\<lambda>(spk, p). walletTools_scriptPubkeyToAddress demo_env spk
                        (spec_display_format demo_env p))
       (List.map_filter (spec_our_path demo_env stored_tx) (ourOuts stored_tx))
       = [Inr ''bip44:76a91401'', Inr ''bip49:a91402'']"
proof -
  have paths: "List.map_filter (spec_our_path demo_env stored_tx) (ourOuts stored_tx) =
       [(''76a91401'', \<lparr>format = ''bip44'', changeIndex = 0, addressIndex = 5\<rparr>),
        (''a91402'', \<lparr>format = ''bip44'', changeIndex = 2, addressIndex = 0\<rparr>)]"
    by (simp add: List.map_filter_simps spec_our_path_def stored_tx_def demo_env_def
        output_at_def digit_value_def)
  have fmt: "spec_display_format demo_env \<lparr>format = ''bip44'', changeIndex = 0, addressIndex = 5\<rparr>
       = ''bip44''"
    "spec_display_format demo_env \<lparr>format = ''bip44'', changeIndex = 2, addressIndex = 0\<rparr>
       = ''bip49''"
    by (simp_all add: spec_display_format_def demo_env_def)
  from toEdgeTransaction_replay_protection_format [OF demo_env_edge]
  have "map (\<lambda>(spk, p). walletTools_scriptPubkeyToAddress demo_env spk
                        (spec_display_format demo_env p))
       (List.map_filter (spec_our_path demo_env stored_tx) (ourOuts stored_tx))
       = [Inr ''bip44:76a91401'', Inr ''bip49:a91402'']"
    by simp
  with demo_env_edge paths fmt show ?thesis by (intro conjI)
qed

lemma feeRes_value:
  assumes "fromHex env (hex ptx) = Inr t" and "new_BN env (fees ptx) = Inr f"
    and "virtualSize env t \<noteq> 0"
  shows "feeRes env ptx =
           (if \<bar>f\<bar> div int (virtualSize env t) < 2 ^ 53
            then Some \<lparr>satPerVByte = sgn f * (\<bar>f\<bar> div int (virtualSize env t))\<rparr>
            else None)"
proof -
  let ?q = "\<bar>f\<bar> div int (virtualSize env t)"
  have q: "0 \<le> ?q" by (rule div_int_pos_iff [THEN iffD2]) simp
  have "\<bar>sgn f * ?q\<bar> = ?q"
  proof (cases "f = 0")
    case True
    then show ?thesis by simp
  next
    case False
    then have "\<bar>sgn f\<bar> = 1" by (simp add: abs_sgn_eq)
    with q show ?thesis by (simp add: abs_mult)
  qed
  with assms show ?thesis
    by (simp add: feeRes_def feeRate_def bn_div_def bn_toNumber_def)
qed

lemma truncated_nonneg: "0 \<le> f \<Longrightarrow> sgn f * (\<bar>f\<bar> div v) = f div (v :: int)"
  by (cases "f = 0") (simp_all add: sgn_if)

lemma huge_fee_edge:
  "toEdgeTransaction demo_env huge_fee_tx =
     Inr \<lparr>currencyCode = ''BTC'', edge_txid = ''f1'', edge_blockHeight = 700000,
          edge_date = 1600000000, nativeAmount = ''4907'', networkFee = ''45035996273704960'',
          signedTx = ''0200000001'',
          ourReceiveAddresses = [''bip44:76a91401'', ''bip49:a91402''],
          feeRateUsed = None\<rparr>"
proof -
  have "feeRate demo_env huge_fee_tx = Inl LibError"
    by (simp add: feeRate_def huge_fee_tx_def stored_tx_def demo_env_def digit_value_def
        bn_div_def bn_toNumber_def)
  then have "feeRes demo_env huge_fee_tx = None"
    by (simp add: feeRes_def)
  moreover have "receive_addresses demo_env huge_fee_tx [] (ourOuts huge_fee_tx)
     = Inr [''bip44:76a91401'', ''bip49:a91402'']"
    by (simp add: huge_fee_tx_def stored_tx_def demo_env_def output_at_def digit_value_def
        replay_protection_format_def)
  ultimately show ?thesis
    by (simp add: toEdgeTransaction_def) (simp add: huge_fee_tx_def stored_tx_def demo_env_def)
qed

lemma unparsable_edge:
  "toEdgeTransaction demo_env unparsable_tx =
     Inr \<lparr>currencyCode = ''BTC'', edge_txid = ''f1'', edge_blockHeight = 700000,
          edge_date = 1600000000, nativeAmount = ''4907'', networkFee = ''1000'',
          signedTx = ''020'',
          ourReceiveAddresses = [''bip44:76a91401'', ''bip49:a91402''],
          feeRateUsed = None\<rparr>"
proof -
  have "feeRate demo_env unparsable_tx = Inl LibError"
    by (simp add: feeRate_def unparsable_tx_def stored_tx_def demo_env_def)
  then have "feeRes demo_env unparsable_tx = None"
    by (simp add: feeRes_def)
  moreover have "receive_addresses demo_env unparsable_tx [] (ourOuts unparsable_tx)
     = Inr [''bip44:76a91401'', ''bip49:a91402'']"
    by (simp add: unparsable_tx_def stored_tx_def demo_env_def output_at_def digit_value_def
        replay_protection_format_def)
  ultimately show ?thesis
    by (simp add: toEdgeTransaction_def) (simp add: unparsable_tx_def stored_tx_def demo_env_def)
qed

text \<open>
  C8, as the code has it. When \<^verbatim>\<open>toEdgeTransaction\<close> returns, the stored hex parses to a
  transaction of a virtual size that is not zero and bn.js reads the fee: the returned
  \<^verbatim>\<open>feeRateUsed.satPerVByte\<close> is the quotient of the fee by the virtual size of the
  parsed transaction, truncated towards zero (for a fee that is not negative, the
  integer quotient), when that quotient has at most 53 bits; when it has more, the
  returned transaction has no \<^verbatim>\<open>feeRateUsed\<close>.
\<close>

theorem toEdgeTransaction_fee_rate:
  assumes "toEdgeTransaction env ptx = Inr r"
    and "fromHex env (hex ptx) = Inr t"
    and "new_BN env (fees ptx) = Inr f"
    and "virtualSize env t \<noteq> 0"
  shows "feeRateUsed r =
           (if \<bar>f\<bar> div int (virtualSize env t) < 2 ^ 53
            then Some \<lparr>satPerVByte = sgn f * (\<bar>f\<bar> div int (virtualSize env t))\<rparr>
            else None)
         \<and> (0 \<le> f \<longrightarrow>
              sgn f * (\<bar>f\<bar> div int (virtualSize env t)) = f div int (virtualSize env t))"
proof -
  from assms(1) have "feeRateUsed r = feeRes env ptx"
    by (auto simp: toEdgeTransaction_def split: sum.splits)
  with feeRes_value [OF assms(2,3,4)] truncated_nonneg [of f "int (virtualSize env t)"]
  show ?thesis by simp
qed

theorem toEdgeTransaction_fee_rate_witness:
  "toEdgeTransaction demo_env stored_tx =
     Inr \<lparr>currencyCode = ''BTC'', edge_txid = ''f1'', edge_blockHeight = 700000,
          edge_date = 1600000000, nativeAmount = ''4907'', networkFee = ''1000'',
          signedTx = ''0200000001'',
          ourReceiveAddresses = [''bip44:76a91401'', ''bip49:a91402''],
          feeRateUsed = Some \<lparr>satPerVByte = 200\<rparr>\<rparr>
   \<and> fromHex demo_env (hex stored_tx) = Inr ''0200000001''
   \<and> new_BN demo_env (fees stored_tx) = Inr 1000
   \<and> virtualSize demo_env ''0200000001'' = 5
   \<and> (1000 :: int) div 5 = 200"
proof -
  have h: "fromHex demo_env (hex stored_tx) = Inr ''0200000001''"
    by (simp add: stored_tx_def demo_env_def)
  have f: "new_BN demo_env (fees stored_tx) = Inr 1000"
    by (simp add: stored_tx_def demo_env_def digit_value_def)
  have v: "virtualSize demo_env ''0200000001'' = 5"
    by (simp add: demo_env_def)
  then have v0: "virtualSize demo_env ''0200000001'' \<noteq> 0" by simp
  from toEdgeTransaction_fee_rate [OF demo_env_edge h f v0] demo_env_edge h f v
  show ?thesis by simp
qed

text \<open>
  C8 as the specification states it fails: the hex of the stored transaction parses, to
  a transaction of the virtual size 5, and its fee is \<open>5 * 2 ^ 53\<close>; the quotient
  \<open>2 ^ 53\<close> is more than \<^verbatim>\<open>toNumber\<close> accepts, and the returned transaction has no
  \<^verbatim>\<open>feeRateUsed\<close>.
\<close>

theorem toEdgeTransaction_fee_rate_counterexample:
  "fromHex demo_env (hex huge_fee_tx) = Inr ''0200000001''
   \<and> virtualSize demo_env ''0200000001'' = 5
   \<and> new_BN demo_env (fees huge_fee_tx) = Inr (5 * 2 ^ 53)
   \<and> toEdgeTransaction demo_env huge_fee_tx =
       Inr \<lparr>currencyCode = ''BTC'', edge_txid = ''f1'', edge_blockHeight = 700000,
            edge_date = 1600000000, nativeAmount = ''4907'',
            networkFee = ''45035996273704960'', signedTx = ''0200000001'',
            ourReceiveAddresses = [''bip44:76a91401'', ''bip49:a91402''],
            feeRateUsed = None\<rparr>"
proof -
  have "fromHex demo_env (hex huge_fee_tx) = Inr ''0200000001''"
    by (simp add: huge_fee_tx_def stored_tx_def demo_env_def)
  moreover have "virtualSize demo_env ''0200000001'' = 5"
    by (simp add: demo_env_def)
  moreover have "new_BN demo_env (fees huge_fee_tx) = Inr (5 * 2 ^ 53)"
    by (simp add: huge_fee_tx_def stored_tx_def demo_env_def digit_value_def)
  ultimately show ?thesis using huge_fee_edge by (intro conjI)
qed

lemma receive_addresses_fee_independent:
  "receive_addresses (env\<lparr>fromHex := fh, virtualSize := vs, new_BN := bn\<rparr>) ptx acc outs =
     receive_addresses env ptx acc outs"
proof (induction outs arbitrary: acc)
  case Nil
  then show ?case by simp
next
  case (Cons out rest)
  have o: "output_at (env\<lparr>fromHex := fh, virtualSize := vs, new_BN := bn\<rparr>) ptx out
             = output_at env ptx out"
    by (simp add: output_at_def)
  have r: "replay_protection_format (env\<lparr>fromHex := fh, virtualSize := vs, new_BN := bn\<rparr>) a
             = replay_protection_format env a" for a
    by (simp add: replay_protection_format_def cong: option.case_cong)
  show ?case
    by (simp add: o r Cons.IH cong: option.case_cong sum.case_cong)
qed

text \<open>
  C10. Whatever \<^verbatim>\<open>Transaction.fromHex\<close>, \<^verbatim>\<open>virtualSize\<close> and the constructor of big
  numbers do, \<^verbatim>\<open>toEdgeTransaction\<close> throws or returns as it does with any others in their
  place, and returns the same transaction but for \<^verbatim>\<open>feeRateUsed\<close>: it returns whenever
  the loop over the outputs of ours returns. The transaction returned has the txid,
  block height, date, amount, fee and hex of the stored transaction and the receive
  addresses that the loop has built, and it has no \<^verbatim>\<open>feeRateUsed\<close> when the computation
  of the fee rate throws.
\<close>

theorem toEdgeTransaction_fee_rate_swallowed:
  "map_sum id (\<lambda>r. r\<lparr>feeRateUsed := None\<rparr>)
       (toEdgeTransaction (env\<lparr>fromHex := fh, virtualSize := vs, new_BN := bn\<rparr>) ptx)
     = map_sum id (\<lambda>r. r\<lparr>feeRateUsed := None\<rparr>) (toEdgeTransaction env ptx)
   \<and> (receive_addresses env ptx [] (ourOuts ptx) = Inr addresses \<longrightarrow>
        toEdgeTransaction env ptx =
          Inr \<lparr>currencyCode = info_currencyCode env,
               edge_txid = txid ptx,
               edge_blockHeight = blockHeight ptx,
               edge_date = date ptx,
               nativeAmount = ourAmount ptx,
               networkFee = fees ptx,
               signedTx = hex ptx,
               ourReceiveAddresses = addresses,
               feeRateUsed = feeRes env ptx\<rparr>)
   \<and> (feeRate env ptx = Inl e \<longrightarrow> feeRes env ptx = None)
   \<and> (toEdgeTransaction env ptx = Inl e \<longrightarrow>
        receive_addresses env ptx [] (ourOuts ptx) = Inl e)"
proof (intro conjI impI)
  show "map_sum id (\<lambda>r. r\<lparr>feeRateUsed := None\<rparr>)
       (toEdgeTransaction (env\<lparr>fromHex := fh, virtualSize := vs, new_BN := bn\<rparr>) ptx)
     = map_sum id (\<lambda>r. r\<lparr>feeRateUsed := None\<rparr>) (toEdgeTransaction env ptx)"
    by (cases "receive_addresses env ptx [] (ourOuts ptx)")
      (simp_all add: toEdgeTransaction_def receive_addresses_fee_independent)
  show "toEdgeTransaction env ptx =
          Inr \<lparr>currencyCode = info_currencyCode env,
               edge_txid = txid ptx,
               edge_blockHeight = blockHeight ptx,
               edge_date = date ptx,
               nativeAmount = ourAmount ptx,
               networkFee = fees ptx,
               signedTx = hex ptx,
               ourReceiveAddresses = addresses,
               feeRateUsed = feeRes env ptx\<rparr>"
    if "receive_addresses env ptx [] (ourOuts ptx) = Inr addresses"
    using that by (simp add: toEdgeTransaction_def)
  show "feeRes env ptx = None" if "feeRate env ptx = Inl e"
    using that by (simp add: feeRes_def)
  show "receive_addresses env ptx [] (ourOuts ptx) = Inl e"
    if "toEdgeTransaction env ptx = Inl e"
    using that by (auto simp: toEdgeTransaction_def split: sum.splits)
qed

theorem toEdgeTransaction_fee_rate_swallowed_witness:
  "feeRate demo_env unparsable_tx = Inl LibError
   \<and> toEdgeTransaction demo_env unparsable_tx =
       Inr \<lparr>currencyCode = ''BTC'', edge_txid = ''f1'', edge_blockHeight = 700000,
            edge_date = 1600000000, nativeAmount = ''4907'', networkFee = ''1000'',
            signedTx = ''020'',
            ourReceiveAddresses = [''bip44:76a91401'', ''bip49:a91402''],
            feeRateUsed = None\<rparr>
   \<and> map_sum id (\<lambda>r. r\<lparr>feeRateUsed := None\<rparr>)
       (toEdgeTransaction (demo_env\<lparr>fromHex := Inr, virtualSize := (\<lambda>_. 1),
                                     new_BN := (\<lambda>_. Inr 7)\<rparr>) unparsable_tx)
       = Inr \<lparr>currencyCode = ''BTC'', edge_txid = ''f1'', edge_blockHeight = 700000,
              edge_date = 1600000000, nativeAmount = ''4907'', networkFee = ''1000'',
              signedTx = ''020'',
              ourReceiveAddresses = [''bip44:76a91401'', ''bip49:a91402''],
              feeRateUsed = None\<rparr>
   \<and> toEdgeTransaction demo_env dangling_tx = Inl TypeError
   \<and> receive_addresses demo_env dangling_tx [] (ourOuts dangling_tx) = Inl TypeError"
proof -
  have t: "toEdgeTransaction demo_env dangling_tx = Inl TypeError"
    by (simp add: toEdgeTransaction_def dangling_tx_def stored_tx_def demo_env_def
        output_at_def digit_value_def replay_protection_format_def)
  from toEdgeTransaction_fee_rate_swallowed [where env = demo_env and ptx = dangling_tx
      and e = TypeError] t
  have 4: "receive_addresses demo_env dangling_tx [] (ourOuts dangling_tx) = Inl TypeError"
    by blast
  have a: "receive_addresses demo_env unparsable_tx [] (ourOuts unparsable_tx)
     = Inr [''bip44:76a91401'', ''bip49:a91402'']"
    by (simp add: unparsable_tx_def stored_tx_def demo_env_def output_at_def digit_value_def
        replay_protection_format_def)
  have f: "feeRate demo_env unparsable_tx = Inl LibError"
    by (simp add: feeRate_def unparsable_tx_def stored_tx_def demo_env_def)
  note sw = toEdgeTransaction_fee_rate_swallowed [where env = demo_env and ptx = unparsable_tx
      and fh = Inr and vs = "\<lambda>_. 1" and bn = "\<lambda>_. Inr 7"
      and addresses = "[''bip44:76a91401'', ''bip49:a91402'']" and e = LibError]
  from sw a f have
    1: "toEdgeTransaction demo_env unparsable_tx =
          Inr \<lparr>currencyCode = info_currencyCode demo_env,
               edge_txid = txid unparsable_tx,
               edge_blockHeight = blockHeight unparsable_tx,
               edge_date = date unparsable_tx,
               nativeAmount = ourAmount unparsable_tx,
               networkFee = fees unparsable_tx,
               signedTx = hex unparsable_tx,
               ourReceiveAddresses = [''bip44:76a91401'', ''bip49:a91402''],
               feeRateUsed = None\<rparr>"
    by simp
  then have 2: "toEdgeTransaction demo_env unparsable_tx =
       Inr \<lparr>currencyCode = ''BTC'', edge_txid = ''f1'', edge_blockHeight = 700000,
            edge_date = 1600000000, nativeAmount = ''4907'', networkFee = ''1000'',
            signedTx = ''020'',
            ourReceiveAddresses = [''bip44:76a91401'', ''bip49:a91402''],
            feeRateUsed = None\<rparr>"
    by (simp add: unparsable_tx_def stored_tx_def demo_env_def)
  from sw [THEN conjunct1] 2 have 3: "map_sum id (\<lambda>r. r\<lparr>feeRateUsed := None\<rparr>)
       (toEdgeTransaction (demo_env\<lparr>fromHex := Inr, virtualSize := (\<lambda>_. 1),
                                     new_BN := (\<lambda>_. Inr 7)\<rparr>) unparsable_tx)
       = Inr \<lparr>currencyCode = ''BTC'', edge_txid = ''f1'', edge_blockHeight = 700000,
              edge_date = 1600000000, nativeAmount = ''4907'', networkFee = ''1000'',
              signedTx = ''020'',
              ourReceiveAddresses = [''bip44:76a91401'', ''bip49:a91402''],
              feeRateUsed = None\<rparr>"
    by simp
  from f 2 3 t 4 show ?thesis by (intro conjI)
qed

end
